theory Spec2Isabelle
  imports Complex_Main "HOL-Library.Word" "HOL-Library.AList"
begin

section \<open>Machine types\<close>

text \<open>
  Go's \<open>int\<close>, \<open>int64\<close>, \<open>uint64\<close> and \<open>time.Duration\<close> are 64-bit words.  Signed
  comparisons are \<open>\<le>s\<close> and \<open><s\<close>, unsigned ones \<open>\<le>\<close> and \<open><\<close>; a conversion between
  \<open>uint64\<close> and \<open>int64\<close> keeps the bits.  A \<open>float64\<close> is carried as its bit pattern and
  never computed with.
\<close>

type_synonym int64 = "64 word"
type_synonym uint64 = "64 word"
type_synonym float64 = "64 word"

definition MaxInt64 :: int64 where
  "MaxInt64 = 9223372036854775807"

section \<open>The condition model of package traceql\<close>

text \<open>
  Modelled from the spec: package \<open>traceql\<close> is used by the block code but its declarations
  are not among the sources.  The types below have the fields and constants that
  \<open>block_traceql.go\<close> reads; every Go enumeration is an integer type, so each one gets a
  constructor for the values that have no name here.
\<close>

datatype Operator =
    OpNone | OpEqual | OpNotEqual | OpGreater | OpGreaterEqual
  | OpLess | OpLessEqual | OpRegex | OpUnknown nat

datatype StaticType =
    TypeNil | TypeString | TypeInt | TypeFloat | TypeBoolean | TypeDuration | TypeStatus

datatype Status = StatusError | StatusOk | StatusUnset | StatusRaw uint64

datatype AttributeScope =
    AttributeScopeNone | AttributeScopeResource | AttributeScopeSpan | AttributeScopeUnknown nat

datatype Intrinsic =
    IntrinsicNone | IntrinsicDuration | IntrinsicName | IntrinsicStatus | IntrinsicOther nat

record Static =
  Type :: StaticType
  N :: int64
  F :: float64
  S :: string
  B :: bool
  D :: int64
  Status :: Status

record Attribute =
  Scope :: AttributeScope
  Parent :: bool
  Name :: string
  Intrinsic :: Intrinsic

record Condition =
  Attribute :: Attribute
  Op :: Operator
  Operands :: "Static list"

record FetchSpansRequest =
  StartTimeUnixNanos :: uint64
  EndTimeUnixNanos :: uint64
  Conditions :: "Condition list"
  AllConditions :: bool

text \<open>Modelled from the spec: the constructors of \<open>traceql.Static\<close>, one per tag.\<close>

definition StaticNil :: Static where
  "StaticNil = \<lparr>Type = TypeNil, N = 0, F = 0, S = [], B = False, D = 0, Status = StatusError\<rparr>"

definition NewStaticString :: "string \<Rightarrow> Static" where
  "NewStaticString s = StaticNil\<lparr>Type := TypeString, S := s\<rparr>"

definition NewStaticInt :: "int64 \<Rightarrow> Static" where
  "NewStaticInt n = StaticNil\<lparr>Type := TypeInt, N := n\<rparr>"

definition NewStaticFloat :: "float64 \<Rightarrow> Static" where
  "NewStaticFloat f = StaticNil\<lparr>Type := TypeFloat, F := f\<rparr>"

definition NewStaticBool :: "bool \<Rightarrow> Static" where
  "NewStaticBool b = StaticNil\<lparr>Type := TypeBoolean, B := b\<rparr>"

definition NewStaticDuration :: "int64 \<Rightarrow> Static" where
  "NewStaticDuration d = StaticNil\<lparr>Type := TypeDuration, D := d\<rparr>"

definition NewStaticStatus :: "Status \<Rightarrow> Static" where
  "NewStaticStatus s = StaticNil\<lparr>Type := TypeStatus, Status := s\<rparr>"

text \<open>
  Modelled from the spec: \<open>traceql.NewScopedAttribute\<close> and \<open>traceql.NewIntrinsic\<close>.  An
  attribute built with an explicit span or resource scope is never an intrinsic; an
  intrinsic has no scope.
\<close>

definition NewScopedAttribute :: "AttributeScope \<Rightarrow> bool \<Rightarrow> string \<Rightarrow> Attribute" where
  "NewScopedAttribute scope parent att =
     \<lparr>Scope = scope, Parent = parent, Name = att, Intrinsic = IntrinsicNone\<rparr>"

fun Intrinsic_String :: "Intrinsic \<Rightarrow> string" where
  "Intrinsic_String IntrinsicDuration = ''duration''"
| "Intrinsic_String IntrinsicName = ''name''"
| "Intrinsic_String IntrinsicStatus = ''status''"
| "Intrinsic_String _ = []"

definition NewIntrinsic :: "Intrinsic \<Rightarrow> Attribute" where
  "NewIntrinsic n =
     \<lparr>Scope = AttributeScopeNone, Parent = False, Name = Intrinsic_String n, Intrinsic = n\<rparr>"

section \<open>Errors\<close>

text \<open>
  A Go \<open>error\<close> value is \<open>Errorf\<close> with its message (the formatted condition left out),
  \<open>Wrap\<close> of an error with a prefix, or an error of a collaborator.  A run-time panic is
  an error of its own, so that no out-of-range access goes unseen.
\<close>

datatype error =
    Errorf string
  | Wrap error string
  | External nat
  | PanicIndexOutOfRange
  | PanicSliceBounds
  | PanicTypeAssertion

section \<open>Validation of the conditions\<close>

text \<open>\<open>reflect.TypeOf\<close> of an operand: every operand is a \<open>traceql.Static\<close>.\<close>

definition reflect_TypeOf :: "Static \<Rightarrow> string" where
  "reflect_TypeOf s = ''traceql.Static''"

text \<open>The \<open>switch cond.Op\<close> of \<open>checkConditions\<close>.\<close>

fun checkOp :: "Operator \<Rightarrow> nat \<Rightarrow> error option" where
  "checkOp OpNone opCount =
     (if opCount \<noteq> 0 then Some (Errorf ''operanion none must have 0 arguments'') else None)"
| "checkOp (OpUnknown k) opCount = Some (Errorf ''unknown operation'')"
| "checkOp op opCount =
     (if opCount \<noteq> 1 then Some (Errorf ''operation must have exactly 1 argument'') else None)"

fun checkConditions :: "Condition list \<Rightarrow> error option" where
  "checkConditions [] = None"
| "checkConditions (cond # conditions) =
     (let opCount = length (Operands cond) in
      case checkOp (Op cond) opCount of
        Some e \<Rightarrow> Some e
      | None \<Rightarrow>
          if opCount = 0 then checkConditions conditions
          else if list_ex (\<lambda>operand. reflect_TypeOf (hd (Operands cond)) \<noteq> reflect_TypeOf operand)
                    (tl (Operands cond))
          then Some (Errorf ''operands must be of the same type'')
          else checkConditions conditions)"

section \<open>Predicates\<close>

text \<open>
  \<open>parquetquery.GenericPredicate[int64]\<close> as built by \<open>NewIntPredicate\<close>: the value
  function and the page-range function.
\<close>

record GenericPredicate_int64 =
  Fn :: "int64 \<Rightarrow> bool"
  RangeFn :: "int64 \<Rightarrow> int64 \<Rightarrow> bool"

definition NewIntPredicate ::
  "(int64 \<Rightarrow> bool) \<Rightarrow> (int64 \<Rightarrow> int64 \<Rightarrow> bool) \<Rightarrow> GenericPredicate_int64" where
  "NewIntPredicate fn rangeFn = \<lparr>Fn = fn, RangeFn = rangeFn\<rparr>"

text \<open>
  The \<open>switch op\<close> shared by \<open>createIntPredicate\<close> and \<open>createStatusPredicate\<close>: the two
  closures over the operand \<open>i\<close>, or the error of the default branch.
\<close>

fun intClosures :: "Operator \<Rightarrow> int64 \<Rightarrow> error + GenericPredicate_int64" where
  "intClosures OpEqual i =
     Inr (NewIntPredicate (\<lambda>v. v = i) (\<lambda>min max. min \<le>s i \<and> i \<le>s max))"
| "intClosures OpNotEqual i =
     Inr (NewIntPredicate (\<lambda>v. v \<noteq> i) (\<lambda>min max. min \<noteq> i \<or> max \<noteq> i))"
| "intClosures OpGreater i =
     Inr (NewIntPredicate (\<lambda>v. i <s v) (\<lambda>min max. i <s max))"
| "intClosures OpGreaterEqual i =
     Inr (NewIntPredicate (\<lambda>v. i \<le>s v) (\<lambda>min max. i \<le>s max))"
| "intClosures OpLess i =
     Inr (NewIntPredicate (\<lambda>v. v <s i) (\<lambda>min max. min <s i))"
| "intClosures OpLessEqual i =
     Inr (NewIntPredicate (\<lambda>v. v \<le>s i) (\<lambda>min max. min \<le>s i))"
| "intClosures op i = Inl (Errorf ''operand not supported for integers'')"

text \<open>
  \<open>createIntPredicate\<close>.  \<open>None\<close> is the nil predicate of \<open>OpNone\<close>; reading
  \<open>operands[0]\<close> of an empty list panics.
\<close>

definition createIntPredicate ::
  "Operator \<Rightarrow> Static list \<Rightarrow> error + GenericPredicate_int64 option" where
  "createIntPredicate op operands =
     (if op = OpNone then Inr None
      else case operands of
        [] \<Rightarrow> Inl PanicIndexOutOfRange
      | operand # _ \<Rightarrow>
          (case Type operand of
             TypeInt \<Rightarrow> map_sum id Some (intClosures op (N operand))
           | TypeDuration \<Rightarrow> map_sum id Some (intClosures op (D operand))
           | _ \<Rightarrow> Inl (Errorf ''operand is not int or duration'')))"

text \<open>
  Modelled from the spec: the predicates of package \<open>parquetquery\<close>, whose code is not
  among the sources.  Each constructor stands for the value the constructor function of
  the same name returns; a nil predicate ("accept all") is \<open>None\<close>.  The closures of
  \<open>createFloatPredicate\<close> compare floating-point numbers, which are not interpreted
  here, so a float predicate is kept as the operator and operand that determine its
  closures.
\<close>

datatype Predicate =
    StringInPredicate "string list"
  | RegexInPredicate "string list"
  | GenericStringPredicate "string \<Rightarrow> bool" "string \<Rightarrow> string \<Rightarrow> bool"
  | IntPredicate GenericPredicate_int64
  | FloatPredicate Operator float64
  | BoolPredicate bool
  | IntBetweenPredicate int64 int64
  | OrPredicate "Predicate option list"

definition NewOrPredicate :: "Predicate option list \<Rightarrow> Predicate option" where
  "NewOrPredicate predicates = Some (OrPredicate predicates)"

text \<open>
  Modelled from the spec: \<open>NewRegexInPredicate\<close> compiles its patterns once and fails
  when one does not compile.  The regular-expression compiler is the parameter \<open>rx\<close>,
  which gives the compile error of a pattern, if any.
\<close>

fun NewRegexInPredicate ::
  "(string \<Rightarrow> error option) \<Rightarrow> string list \<Rightarrow> error + Predicate option" where
  "NewRegexInPredicate rx patterns =
     (case List.map_filter rx patterns of
        [] \<Rightarrow> Inr (Some (RegexInPredicate patterns))
      | e # _ \<Rightarrow> Inl e)"

definition operandType :: "Static list \<Rightarrow> StaticType" where
  "operandType operands = (case operands of [] \<Rightarrow> TypeNil | operand # _ \<Rightarrow> Type operand)"

definition createStringPredicate ::
  "(string \<Rightarrow> error option) \<Rightarrow> Operator \<Rightarrow> Static list \<Rightarrow> error + Predicate option" where
  "createStringPredicate rx op operands =
     (if op = OpNone then Inr None
      else if list_ex (\<lambda>operand. Type operand \<noteq> TypeString) operands
      then Inl (Errorf ''operand is not string'')
      else case operands of
        [] \<Rightarrow> Inl PanicIndexOutOfRange
      | operand # _ \<Rightarrow>
          (let s = S operand in
           case op of
             OpEqual \<Rightarrow> Inr (Some (StringInPredicate [s]))
           | OpNotEqual \<Rightarrow>
               Inr (Some (GenericStringPredicate (\<lambda>v. v \<noteq> s) (\<lambda>min max. min \<noteq> s \<or> max \<noteq> s)))
           | OpRegex \<Rightarrow> NewRegexInPredicate rx [s]
           | _ \<Rightarrow> Inl (Errorf ''operand not supported for strings'')))"

text \<open>
  \<open>StatusCodeMapping[status.String()]\<close>: the table is declared in another file of the
  package; it maps the names of the three OTLP status codes to 0 (unset), 1 (ok) and
  2 (error), and a missing key reads as 0.
\<close>

fun StatusCodeMapping :: "Status \<Rightarrow> int64" where
  "StatusCodeMapping StatusUnset = 0"
| "StatusCodeMapping StatusOk = 1"
| "StatusCodeMapping StatusError = 2"
| "StatusCodeMapping (StatusRaw n) = 0"

definition createStatusPredicate ::
  "Operator \<Rightarrow> Static list \<Rightarrow> error + GenericPredicate_int64 option" where
  "createStatusPredicate op operands =
     (if op = OpNone then Inr None
      else case operands of
        [] \<Rightarrow> Inl PanicIndexOutOfRange
      | operand # _ \<Rightarrow>
          (case Type operand of
             TypeInt \<Rightarrow> map_sum id Some (intClosures op (N operand))
           | TypeStatus \<Rightarrow> map_sum id Some (intClosures op (StatusCodeMapping (Status operand)))
           | _ \<Rightarrow> Inl (Errorf ''operand is not int or status'')))"

definition createFloatPredicate :: "Operator \<Rightarrow> Static list \<Rightarrow> error + Predicate option" where
  "createFloatPredicate op operands =
     (if op = OpNone then Inr None
      else case operands of
        [] \<Rightarrow> Inl PanicIndexOutOfRange
      | operand # _ \<Rightarrow>
          if Type operand \<noteq> TypeFloat then Inl (Errorf ''operand is not float'')
          else if op \<in> {OpEqual, OpNotEqual, OpGreater, OpGreaterEqual, OpLess, OpLessEqual}
          then Inr (Some (FloatPredicate op (F operand)))
          else Inl (Errorf ''operand not supported for floats''))"

definition createBoolPredicate :: "Operator \<Rightarrow> Static list \<Rightarrow> error + Predicate option" where
  "createBoolPredicate op operands =
     (if op = OpNone then Inr None
      else case operands of
        [] \<Rightarrow> Inl PanicIndexOutOfRange
      | operand # _ \<Rightarrow>
          if Type operand \<noteq> TypeBoolean then Inl (Errorf ''operand is not bool'')
          else case op of
            OpEqual \<Rightarrow> Inr (Some (BoolPredicate (B operand)))
          | OpNotEqual \<Rightarrow> Inr (Some (BoolPredicate (\<not> B operand)))
          | _ \<Rightarrow> Inl (Errorf ''operand not supported for booleans''))"

text \<open>A \<open>*GenericPredicate[int64]\<close> used where a \<open>Predicate\<close> is expected.\<close>

definition asPredicate :: "GenericPredicate_int64 option \<Rightarrow> Predicate option" where
  "asPredicate p = map_option IntPredicate p"

definition createPredicate ::
  "(string \<Rightarrow> error option) \<Rightarrow> Operator \<Rightarrow> Static list \<Rightarrow> error + Predicate option" where
  "createPredicate rx op operands =
     (if op = OpNone then Inr None
      else case operands of
        [] \<Rightarrow> Inl PanicIndexOutOfRange
      | operand # _ \<Rightarrow>
          (case Type operand of
             TypeString \<Rightarrow> createStringPredicate rx op operands
           | TypeInt \<Rightarrow> map_sum id asPredicate (createIntPredicate op operands)
           | TypeFloat \<Rightarrow> createFloatPredicate op operands
           | TypeBoolean \<Rightarrow> createBoolPredicate op operands
           | _ \<Rightarrow> Inl (Errorf ''cannot create predicate for operand'')))"

section \<open>Iterators\<close>

text \<open>
  The definition levels are constants of the package's schema file; only their identity
  matters here.
\<close>

datatype DefinitionLevel =
    DefinitionLevelTrace
  | DefinitionLevelResourceSpans
  | DefinitionLevelResourceAttrs
  | DefinitionLevelResourceSpansILSSpan
  | DefinitionLevelResourceSpansILSSpanAttrs

record spanCollector =
  minAttributes :: nat
  durationFilters :: "GenericPredicate_int64 option list"

record batchCollector =
  requireAtLeastOneMatchOverall :: bool
  minAttributes :: nat

datatype GroupPredicate =
    AttributeCollector
  | SpanCollector spanCollector
  | BatchCollector batchCollector
  | TraceCollector

text \<open>
  Modelled from the spec: the iterator tree of package \<open>parquetquery\<close>.  A column
  iterator reads one column of the selected row groups through a predicate and names its
  entries; the three combinators group their children at a definition level and hand
  each group to a group predicate (\<open>None\<close> when the source passes nil).
\<close>

datatype 'rg Iterator =
    ColumnIterator "'rg list" string "Predicate option" string
  | JoinIterator DefinitionLevel "'rg Iterator list" "GroupPredicate option"
  | LeftJoinIterator DefinitionLevel "'rg Iterator list" "'rg Iterator list"
      "GroupPredicate option"
  | UnionIterator DefinitionLevel "'rg Iterator list" "GroupPredicate option"

type_synonym 'rg makeIterFn = "string \<Rightarrow> Predicate option \<Rightarrow> string \<Rightarrow> 'rg Iterator"

definition makeIterFunc :: "'rg list \<Rightarrow> 'rg makeIterFn" where
  "makeIterFunc rgs columnName predicate selectAs =
     ColumnIterator rgs columnName predicate selectAs"

subsection \<open>Column paths and lookup tables\<close>

definition "columnPathTraceID = ''TraceID''"
definition "columnPathStartTimeUnixNano = ''StartTimeUnixNano''"
definition "columnPathDurationNanos = ''DurationNanos''"
definition "columnPathRootSpanName = ''RootSpanName''"
definition "columnPathRootServiceName = ''RootServiceName''"
definition "columnPathResourceAttrKey = ''rs.Resource.Attrs.Key''"
definition "columnPathResourceAttrString = ''rs.Resource.Attrs.Value''"
definition "columnPathResourceAttrInt = ''rs.Resource.Attrs.ValueInt''"
definition "columnPathResourceAttrDouble = ''rs.Resource.Attrs.ValueDouble''"
definition "columnPathResourceAttrBool = ''rs.Resource.Attrs.ValueBool''"
definition "columnPathResourceServiceName = ''rs.Resource.ServiceName''"
definition "columnPathResourceCluster = ''rs.Resource.Cluster''"
definition "columnPathResourceNamespace = ''rs.Resource.Namespace''"
definition "columnPathResourcePod = ''rs.Resource.Pod''"
definition "columnPathResourceContainer = ''rs.Resource.Container''"
definition "columnPathResourceK8sClusterName = ''rs.Resource.K8sClusterName''"
definition "columnPathResourceK8sNamespaceName = ''rs.Resource.K8sNamespaceName''"
definition "columnPathResourceK8sPodName = ''rs.Resource.K8sPodName''"
definition "columnPathResourceK8sContainerName = ''rs.Resource.K8sContainerName''"
definition "columnPathSpanID = ''rs.ils.Spans.ID''"
definition "columnPathSpanName = ''rs.ils.Spans.Name''"
definition "columnPathSpanStartTime = ''rs.ils.Spans.StartUnixNanos''"
definition "columnPathSpanEndTime = ''rs.ils.Spans.EndUnixNanos''"
definition "columnPathSpanStatusCode = ''rs.ils.Spans.StatusCode''"
definition "columnPathSpanAttrKey = ''rs.ils.Spans.Attrs.Key''"
definition "columnPathSpanAttrString = ''rs.ils.Spans.Attrs.Value''"
definition "columnPathSpanAttrInt = ''rs.ils.Spans.Attrs.ValueInt''"
definition "columnPathSpanAttrDouble = ''rs.ils.Spans.Attrs.ValueDouble''"
definition "columnPathSpanAttrBool = ''rs.ils.Spans.Attrs.ValueBool''"
definition "columnPathSpanHTTPStatusCode = ''rs.ils.Spans.HttpStatusCode''"
definition "columnPathSpanHTTPMethod = ''rs.ils.Spans.HttpMethod''"
definition "columnPathSpanHTTPURL = ''rs.ils.Spans.HttpUrl''"

lemmas columnPath_defs =
  columnPathTraceID_def columnPathStartTimeUnixNano_def columnPathDurationNanos_def
  columnPathRootSpanName_def columnPathRootServiceName_def columnPathResourceAttrKey_def
  columnPathResourceAttrString_def columnPathResourceAttrInt_def
  columnPathResourceAttrDouble_def columnPathResourceAttrBool_def
  columnPathResourceServiceName_def columnPathResourceCluster_def
  columnPathResourceNamespace_def columnPathResourcePod_def columnPathResourceContainer_def
  columnPathResourceK8sClusterName_def columnPathResourceK8sNamespaceName_def
  columnPathResourceK8sPodName_def columnPathResourceK8sContainerName_def
  columnPathSpanID_def columnPathSpanName_def columnPathSpanStartTime_def
  columnPathSpanEndTime_def columnPathSpanStatusCode_def columnPathSpanAttrKey_def
  columnPathSpanAttrString_def columnPathSpanAttrInt_def columnPathSpanAttrDouble_def
  columnPathSpanAttrBool_def columnPathSpanHTTPStatusCode_def columnPathSpanHTTPMethod_def
  columnPathSpanHTTPURL_def

text \<open>
  The attribute names with dedicated columns.  The \<open>Label\<close> constants are declared in the
  package's schema file, which is not among the sources; their values are the attribute
  names of the trace data model.
\<close>

definition "LabelServiceName = ''service.name''"
definition "LabelCluster = ''cluster''"
definition "LabelNamespace = ''namespace''"
definition "LabelPod = ''pod''"
definition "LabelContainer = ''container''"
definition "LabelK8sClusterName = ''k8s.cluster.name''"
definition "LabelK8sNamespaceName = ''k8s.namespace.name''"
definition "LabelK8sPodName = ''k8s.pod.name''"
definition "LabelK8sContainerName = ''k8s.container.name''"
definition "LabelHTTPStatusCode = ''http.status_code''"
definition "LabelHTTPMethod = ''http.method''"
definition "LabelHTTPUrl = ''http.url''"

lemmas Label_defs =
  LabelServiceName_def LabelCluster_def LabelNamespace_def LabelPod_def LabelContainer_def
  LabelK8sClusterName_def LabelK8sNamespaceName_def LabelK8sPodName_def
  LabelK8sContainerName_def LabelHTTPStatusCode_def LabelHTTPMethod_def LabelHTTPUrl_def

definition intrinsicColumnLookups ::
  "Intrinsic \<Rightarrow> (AttributeScope \<times> StaticType \<times> string) option" where
  "intrinsicColumnLookups i =
     (case i of
        IntrinsicName \<Rightarrow> Some (AttributeScopeSpan, TypeString, columnPathSpanName)
      | IntrinsicStatus \<Rightarrow> Some (AttributeScopeSpan, TypeStatus, columnPathSpanStatusCode)
      | IntrinsicDuration \<Rightarrow> Some (AttributeScopeSpan, TypeDuration, [])
      | _ \<Rightarrow> None)"

record wellKnownColumn =
  columnPath :: string
  level :: AttributeScope
  valueTyp :: StaticType

definition wellKnownColumnLookups :: "(string \<times> wellKnownColumn) list" where
  "wellKnownColumnLookups =
     [(LabelServiceName,
         \<lparr>columnPath = columnPathResourceServiceName, level = AttributeScopeResource, valueTyp = TypeString\<rparr>),
      (LabelCluster,
         \<lparr>columnPath = columnPathResourceCluster, level = AttributeScopeResource, valueTyp = TypeString\<rparr>),
      (LabelNamespace,
         \<lparr>columnPath = columnPathResourceNamespace, level = AttributeScopeResource, valueTyp = TypeString\<rparr>),
      (LabelPod,
         \<lparr>columnPath = columnPathResourcePod, level = AttributeScopeResource, valueTyp = TypeString\<rparr>),
      (LabelContainer,
         \<lparr>columnPath = columnPathResourceContainer, level = AttributeScopeResource, valueTyp = TypeString\<rparr>),
      (LabelK8sClusterName,
         \<lparr>columnPath = columnPathResourceK8sClusterName, level = AttributeScopeResource, valueTyp = TypeString\<rparr>),
      (LabelK8sNamespaceName,
         \<lparr>columnPath = columnPathResourceK8sNamespaceName, level = AttributeScopeResource, valueTyp = TypeString\<rparr>),
      (LabelK8sPodName,
         \<lparr>columnPath = columnPathResourceK8sPodName, level = AttributeScopeResource, valueTyp = TypeString\<rparr>),
      (LabelK8sContainerName,
         \<lparr>columnPath = columnPathResourceK8sContainerName, level = AttributeScopeResource, valueTyp = TypeString\<rparr>),
      (LabelHTTPStatusCode,
         \<lparr>columnPath = columnPathSpanHTTPStatusCode, level = AttributeScopeSpan, valueTyp = TypeInt\<rparr>),
      (LabelHTTPMethod,
         \<lparr>columnPath = columnPathSpanHTTPMethod, level = AttributeScopeSpan, valueTyp = TypeString\<rparr>),
      (LabelHTTPUrl,
         \<lparr>columnPath = columnPathSpanHTTPURL, level = AttributeScopeSpan, valueTyp = TypeString\<rparr>)]"

subsection \<open>The attribute sub-plan\<close>

text \<open>
  The loop of \<open>createAttributeIterator\<close> over the conditions.  Its state is the list of
  attribute names and the four lists of predicates, one per value column.
\<close>

type_synonym attrPreds =
  "string list \<times> Predicate option list \<times> Predicate option list \<times> Predicate option list
     \<times> Predicate option list"

fun attributePredicates ::
  "(string \<Rightarrow> error option) \<Rightarrow> Condition list \<Rightarrow> attrPreds \<Rightarrow> error + attrPreds" where
  "attributePredicates rx [] st = Inr st"
| "attributePredicates rx (cond # conditions)
       (attrKeys, attrStringPreds, attrIntPreds, attrFltPreds, boolPreds) =
     (let attrKeys = attrKeys @ [Name (Attribute cond)] in
      if Op cond = OpNone
      then attributePredicates rx conditions
             (attrKeys, attrStringPreds @ [None], attrIntPreds @ [None], attrFltPreds @ [None],
              boolPreds @ [None])
      else case Operands cond of
        [] \<Rightarrow> Inl PanicIndexOutOfRange
      | operand # _ \<Rightarrow>
          (case Type operand of
             TypeString \<Rightarrow>
               (case createStringPredicate rx (Op cond) (Operands cond) of
                  Inl err \<Rightarrow> Inl (Wrap err ''creating attribute predicate'')
                | Inr pred \<Rightarrow>
                    attributePredicates rx conditions
                      (attrKeys, attrStringPreds @ [pred], attrIntPreds, attrFltPreds, boolPreds))
           | TypeInt \<Rightarrow>
               (case createIntPredicate (Op cond) (Operands cond) of
                  Inl err \<Rightarrow> Inl (Wrap err ''creating attribute predicate'')
                | Inr pred \<Rightarrow>
                    attributePredicates rx conditions
                      (attrKeys, attrStringPreds, attrIntPreds @ [asPredicate pred], attrFltPreds,
                       boolPreds))
           | TypeFloat \<Rightarrow>
               (case createFloatPredicate (Op cond) (Operands cond) of
                  Inl err \<Rightarrow> Inl (Wrap err ''creating attribute predicate'')
                | Inr pred \<Rightarrow>
                    attributePredicates rx conditions
                      (attrKeys, attrStringPreds, attrIntPreds, attrFltPreds @ [pred], boolPreds))
           | TypeBoolean \<Rightarrow>
               (case createBoolPredicate (Op cond) (Operands cond) of
                  Inl err \<Rightarrow> Inl (Wrap err ''creating attribute predicate'')
                | Inr pred \<Rightarrow>
                    attributePredicates rx conditions
                      (attrKeys, attrStringPreds, attrIntPreds, attrFltPreds, boolPreds @ [pred]))
           | _ \<Rightarrow>
               attributePredicates rx conditions
                 (attrKeys, attrStringPreds, attrIntPreds, attrFltPreds, boolPreds)))"

text \<open>
  \<open>createAttributeIterator\<close>.  The result is \<open>None\<close> when no value column is read.  The
  group predicate \<open>*new(T)\<close> is the attribute collector at both call sites.
\<close>

definition createAttributeIterator ::
  "'rg makeIterFn \<Rightarrow> (string \<Rightarrow> error option) \<Rightarrow> Condition list \<Rightarrow> DefinitionLevel \<Rightarrow>
   string \<Rightarrow> string \<Rightarrow> string \<Rightarrow> string \<Rightarrow> string \<Rightarrow> error + 'rg Iterator option" where
  "createAttributeIterator makeIter rx conditions definitionLevel
       keyPath strPath intPath floatPath boolPath =
     (case attributePredicates rx conditions ([], [], [], [], []) of
        Inl err \<Rightarrow> Inl err
      | Inr (attrKeys, attrStringPreds, attrIntPreds, attrFltPreds, boolPreds) \<Rightarrow>
          (let valueIters =
                 (if 0 < length attrStringPreds
                  then [makeIter strPath (NewOrPredicate attrStringPreds) ''string''] else [])
               @ (if 0 < length attrIntPreds
                  then [makeIter intPath (NewOrPredicate attrIntPreds) ''int''] else [])
               @ (if 0 < length attrFltPreds
                  then [makeIter floatPath (NewOrPredicate attrFltPreds) ''float''] else [])
               @ (if 0 < length boolPreds
                  then [makeIter boolPath (NewOrPredicate boolPreds) ''bool''] else [])
           in if 0 < length valueIters
              then Inr (Some (LeftJoinIterator definitionLevel
                        [makeIter keyPath (Some (StringInPredicate attrKeys)) ''key'']
                        valueIters (Some AttributeCollector)))
              else Inr None))"

subsection \<open>Column iterators\<close>

text \<open>
  The two Go maps \<open>columnSelectAs\<close> and \<open>columnPredicates\<close>.  The second one is iterated,
  so it is an association list, in the order in which its keys were first written (Go
  leaves the order of a map iteration open; no property below depends on it).
\<close>

type_synonym columnPreds = "(string \<times> Predicate option list) list"

definition addPredicate :: "string \<Rightarrow> Predicate option \<Rightarrow> columnPreds \<Rightarrow> columnPreds" where
  "addPredicate path p columnPredicates =
     AList.update path
       ((case map_of columnPredicates path of None \<Rightarrow> [] | Some ps \<Rightarrow> ps) @ [p])
       columnPredicates"

definition selectAsOf :: "(string \<rightharpoonup> string) \<Rightarrow> string \<Rightarrow> string" where
  "selectAsOf columnSelectAs path =
     (case columnSelectAs path of None \<Rightarrow> [] | Some a \<Rightarrow> a)"

text \<open>The predicate that collects the non-empty values of a well-known column.\<close>

definition nonEmptyPredicate :: Predicate where
  "nonEmptyPredicate =
     GenericStringPredicate (\<lambda>v. 0 < length v) (\<lambda>min max. min \<noteq> [] \<or> max \<noteq> [])"

text \<open>
  The loop that adds the well-known columns the query did not select.  As in the source,
  the map of predicates is keyed by column path but looked up by attribute name.
\<close>

definition addWellKnownColumns ::
  "AttributeScope \<Rightarrow> (string \<rightharpoonup> string) \<times> columnPreds \<Rightarrow> (string \<rightharpoonup> string) \<times> columnPreds" where
  "addWellKnownColumns scope st =
     fold (\<lambda>(name, column) (columnSelectAs, columnPredicates).
             if level column = scope \<and> map_of columnPredicates name = None
             then (columnSelectAs(columnPath column \<mapsto> name),
                   addPredicate (columnPath column) (Some nonEmptyPredicate) columnPredicates)
             else (columnSelectAs, columnPredicates))
       wellKnownColumnLookups st"

text \<open>The final loop over \<open>columnPredicates\<close>: one column iterator per key.\<close>

definition columnIterators ::
  "'rg makeIterFn \<Rightarrow> (string \<rightharpoonup> string) \<Rightarrow> columnPreds \<Rightarrow> 'rg Iterator list" where
  "columnIterators makeIter columnSelectAs columnPredicates =
     map (\<lambda>(path, predicates).
            makeIter path (NewOrPredicate predicates) (selectAsOf columnSelectAs path))
       columnPredicates"

text \<open>The loop of \<open>createSpanColumnIterators\<close> over the conditions.\<close>

type_synonym spanColumnState =
  "(string \<rightharpoonup> string) \<times> columnPreds \<times> Condition list \<times> GenericPredicate_int64 option list"

fun spanColumnConditions ::
  "(string \<Rightarrow> error option) \<Rightarrow> Condition list \<Rightarrow> spanColumnState \<Rightarrow> error + spanColumnState" where
  "spanColumnConditions rx [] st = Inr st"
| "spanColumnConditions rx (cond # conditions)
       (columnSelectAs, columnPredicates, genericConditions, durationPredicates) =
     (let generic = (columnSelectAs, columnPredicates, genericConditions @ [cond],
                     durationPredicates)
      in case Intrinsic (Attribute cond) of
        IntrinsicName \<Rightarrow>
          (case createStringPredicate rx (Op cond) (Operands cond) of
             Inl err \<Rightarrow> Inl err
           | Inr pred \<Rightarrow>
               spanColumnConditions rx conditions
                 (columnSelectAs(columnPathSpanName \<mapsto> columnPathSpanName),
                  addPredicate columnPathSpanName pred columnPredicates,
                  genericConditions, durationPredicates))
      | IntrinsicDuration \<Rightarrow>
          (case createIntPredicate (Op cond) (Operands cond) of
             Inl err \<Rightarrow> Inl err
           | Inr pred \<Rightarrow>
               spanColumnConditions rx conditions
                 (columnSelectAs, columnPredicates, genericConditions,
                  durationPredicates @ [pred]))
      | IntrinsicStatus \<Rightarrow>
          (case createStatusPredicate (Op cond) (Operands cond) of
             Inl err \<Rightarrow> Inl err
           | Inr pred \<Rightarrow>
               spanColumnConditions rx conditions
                 (columnSelectAs(columnPathSpanStatusCode \<mapsto> columnPathSpanStatusCode),
                  addPredicate columnPathSpanStatusCode (asPredicate pred) columnPredicates,
                  genericConditions, durationPredicates))
      | _ \<Rightarrow>
          (case map_of wellKnownColumnLookups (Name (Attribute cond)) of
             None \<Rightarrow> spanColumnConditions rx conditions generic
           | Some entry \<Rightarrow>
               if level entry = AttributeScopeResource
               then spanColumnConditions rx conditions generic
               else if Op cond = OpNone
               then spanColumnConditions rx conditions
                      (columnSelectAs(columnPath entry \<mapsto> Name (Attribute cond)),
                       addPredicate (columnPath entry) None columnPredicates,
                       genericConditions, durationPredicates)
               else if valueTyp entry = operandType (Operands cond)
               then (case createPredicate rx (Op cond) (Operands cond) of
                       Inl err \<Rightarrow> Inl (Wrap err ''creating predicate'')
                     | Inr pred \<Rightarrow>
                         spanColumnConditions rx conditions
                           (columnSelectAs(columnPath entry \<mapsto> Name (Attribute cond)),
                            addPredicate (columnPath entry) pred columnPredicates,
                            genericConditions, durationPredicates))
               else spanColumnConditions rx conditions generic))"

definition createSpanColumnIterators ::
  "'rg makeIterFn \<Rightarrow> (string \<Rightarrow> error option) \<Rightarrow> Condition list \<Rightarrow> bool \<Rightarrow>
   error + 'rg Iterator list \<times> GenericPredicate_int64 option list" where
  "createSpanColumnIterators makeIter rx conditions withAllWellKnownColumns =
     (case spanColumnConditions rx conditions (Map.empty, [], [], []) of
        Inl err \<Rightarrow> Inl err
      | Inr (columnSelectAs, columnPredicates, genericConditions, durationPredicates) \<Rightarrow>
          (case createAttributeIterator makeIter rx genericConditions
                  DefinitionLevelResourceSpansILSSpanAttrs
                  columnPathSpanAttrKey columnPathSpanAttrString columnPathSpanAttrInt
                  columnPathSpanAttrDouble columnPathSpanAttrBool of
             Inl err \<Rightarrow> Inl (Wrap err ''creating span attribute iterator'')
           | Inr attrIter \<Rightarrow>
               (let iters = (case attrIter of None \<Rightarrow> [] | Some it \<Rightarrow> [it]);
                    (columnSelectAs, columnPredicates) =
                      (if withAllWellKnownColumns
                       then addWellKnownColumns AttributeScopeSpan (columnSelectAs, columnPredicates)
                       else (columnSelectAs, columnPredicates))
                in Inr (iters @ columnIterators makeIter columnSelectAs columnPredicates,
                        durationPredicates))))"

text \<open>The number of distinct attribute names of a condition list: \<open>len(distinct)\<close>.\<close>

definition distinctNames :: "Condition list \<Rightarrow> nat" where
  "distinctNames conditions = length (remdups (map (\<lambda>cond. Name (Attribute cond)) conditions))"

text \<open>\<open>createSpanIterator\<close>.\<close>

definition createSpanIterator ::
  "'rg makeIterFn \<Rightarrow> (string \<Rightarrow> error option) \<Rightarrow> Condition list \<Rightarrow> uint64 \<Rightarrow> uint64 \<Rightarrow>
   bool \<Rightarrow> bool \<Rightarrow> error + 'rg Iterator" where
  "createSpanIterator makeIter rx conditions start end requireAtLeastOneMatch allConditions =
     (case createSpanColumnIterators makeIter rx conditions False of
        Inl err \<Rightarrow> Inl err
      | Inr (iters, durationPredicates) \<Rightarrow>
          (let (startFilter, endFilter) =
                 (if 0 < start \<and> 0 < end
                  then (Some (IntBetweenPredicate 0 end), Some (IntBetweenPredicate start MaxInt64))
                  else (None, None));
               minCount = 0;
               minCount = (if requireAtLeastOneMatch then 1 else minCount);
               minCount = (if allConditions then distinctNames conditions else minCount);
               spanCol = \<lparr>spanCollector.minAttributes = minCount,
                          durationFilters = durationPredicates\<rparr>;
               (required, iters) = (if allConditions then (iters, []) else ([], iters));
               (required, iters) =
                 (if requireAtLeastOneMatch \<and> 0 < length iters \<and> length durationPredicates = 0
                  then (required @ [UnionIterator DefinitionLevelResourceSpansILSSpan iters None], [])
                  else (required, iters));
               required = required
                 @ [makeIter columnPathSpanStartTime startFilter columnPathSpanStartTime,
                    makeIter columnPathSpanEndTime endFilter columnPathSpanEndTime,
                    makeIter columnPathSpanID None columnPathSpanID]
           in Inr (LeftJoinIterator DefinitionLevelResourceSpansILSSpan required iters
                     (Some (SpanCollector spanCol)))))"

text \<open>The loop of \<open>createResourceColumIterators\<close> over the conditions.\<close>

type_synonym 'rg resourceColumnState =
  "(string \<rightharpoonup> string) \<times> columnPreds \<times> 'rg Iterator list \<times> Condition list"

fun resourceColumnConditions ::
  "'rg makeIterFn \<Rightarrow> (string \<Rightarrow> error option) \<Rightarrow> Condition list \<Rightarrow> 'rg resourceColumnState \<Rightarrow>
   error + 'rg resourceColumnState" where
  "resourceColumnConditions makeIter rx [] st = Inr st"
| "resourceColumnConditions makeIter rx (cond # conditions)
       (columnSelectAs, columnPredicates, iters, genericConditions) =
     (let generic = (columnSelectAs, columnPredicates, iters, genericConditions @ [cond])
      in case map_of wellKnownColumnLookups (Name (Attribute cond)) of
        None \<Rightarrow> resourceColumnConditions makeIter rx conditions generic
      | Some entry \<Rightarrow>
          if level entry = AttributeScopeSpan
          then resourceColumnConditions makeIter rx conditions generic
          else if Op cond = OpNone
          then resourceColumnConditions makeIter rx conditions
                 (columnSelectAs(columnPath entry \<mapsto> Name (Attribute cond)),
                  addPredicate (columnPath entry) None columnPredicates,
                  iters, genericConditions)
          else if valueTyp entry = operandType (Operands cond)
          then (case createPredicate rx (Op cond) (Operands cond) of
                  Inl err \<Rightarrow> Inl (Wrap err ''creating predicate'')
                | Inr pred \<Rightarrow>
                    resourceColumnConditions makeIter rx conditions
                      (columnSelectAs, columnPredicates,
                       iters @ [makeIter (columnPath entry) pred (Name (Attribute cond))],
                       genericConditions))
          else resourceColumnConditions makeIter rx conditions generic)"

text \<open>
  \<open>createResourceColumIterators\<close>.  The loop over \<open>columnPredicates\<close> stands twice in the
  source, before and after the well-known columns are added, and so it does here.
\<close>

definition createResourceColumIterators ::
  "'rg makeIterFn \<Rightarrow> (string \<Rightarrow> error option) \<Rightarrow> Condition list \<Rightarrow> bool \<Rightarrow>
   error + 'rg Iterator list" where
  "createResourceColumIterators makeIter rx conditions withAllWellKnownColumns =
     (case resourceColumnConditions makeIter rx conditions (Map.empty, [], [], []) of
        Inl err \<Rightarrow> Inl err
      | Inr (columnSelectAs, columnPredicates, iters, genericConditions) \<Rightarrow>
          (case createAttributeIterator makeIter rx genericConditions
                  DefinitionLevelResourceAttrs
                  columnPathResourceAttrKey columnPathResourceAttrString columnPathResourceAttrInt
                  columnPathResourceAttrDouble columnPathResourceAttrBool of
             Inl err \<Rightarrow> Inl (Wrap err ''creating span attribute iterator'')
           | Inr attrIter \<Rightarrow>
               (let iters = iters @ (case attrIter of None \<Rightarrow> [] | Some it \<Rightarrow> [it]);
                    iters = iters @ columnIterators makeIter columnSelectAs columnPredicates;
                    (columnSelectAs, columnPredicates) =
                      (if withAllWellKnownColumns
                       then addWellKnownColumns AttributeScopeResource
                              (columnSelectAs, columnPredicates)
                       else (columnSelectAs, columnPredicates));
                    iters = iters @ columnIterators makeIter columnSelectAs columnPredicates
                in Inr iters)))"

text \<open>\<open>createResourceIterator\<close>.\<close>

definition createResourceIterator ::
  "'rg makeIterFn \<Rightarrow> (string \<Rightarrow> error option) \<Rightarrow> 'rg Iterator \<Rightarrow> Condition list \<Rightarrow>
   bool \<Rightarrow> bool \<Rightarrow> bool \<Rightarrow> error + 'rg Iterator" where
  "createResourceIterator makeIter rx spanIterator conditions requireAtLeastOneMatch
       requireOverall allConditions =
     (case createResourceColumIterators makeIter rx conditions False of
        Inl err \<Rightarrow> Inl err
      | Inr columnIters \<Rightarrow>
          (let minCount = 0;
               minCount = (if requireAtLeastOneMatch then 1 else minCount);
               minCount = (if allConditions then distinctNames conditions else minCount);
               batchCol = \<lparr>requireAtLeastOneMatchOverall = requireOverall,
                           batchCollector.minAttributes = minCount\<rparr>;
               (required, columnIters) =
                 (if allConditions then (columnIters, []) else ([], columnIters));
               (required, columnIters) =
                 (if requireAtLeastOneMatch \<and> 0 < length columnIters
                  then (required @ [UnionIterator DefinitionLevelResourceSpans columnIters None], [])
                  else (required, columnIters));
               required = required @ [spanIterator]
           in Inr (LeftJoinIterator DefinitionLevelResourceSpans required columnIters
                     (Some (BatchCollector batchCol)))))"

definition createTraceIterator :: "'rg makeIterFn \<Rightarrow> 'rg Iterator \<Rightarrow> 'rg Iterator" where
  "createTraceIterator makeIter resourceIter =
     JoinIterator DefinitionLevelTrace
       [resourceIter,
        makeIter columnPathTraceID None columnPathTraceID,
        makeIter columnPathStartTimeUnixNano None columnPathStartTimeUnixNano,
        makeIter columnPathDurationNanos None columnPathDurationNanos,
        makeIter columnPathRootSpanName None columnPathRootSpanName,
        makeIter columnPathRootServiceName None columnPathRootServiceName]
       (Some TraceCollector)"

section \<open>The fetch\<close>

text \<open>
  The two fields of \<open>common.SearchOptions\<close> that \<open>fetch\<close> reads, and the row groups of
  the opened file.
\<close>

record SearchOptions =
  StartPage :: int64
  TotalPages :: int64

record 'rg File =
  RowGroups :: "'rg list"

text \<open>
  The first loop of \<open>fetch\<close>: every condition goes to the span plan, the resource plan
  or both, by its scope.  The state is \<open>mingledConditions\<close>, \<open>spanConditions\<close> and
  \<open>resourceConditions\<close>.
\<close>

fun categorizeConditions ::
  "Condition list \<Rightarrow> bool \<times> Condition list \<times> Condition list \<Rightarrow>
   error + bool \<times> Condition list \<times> Condition list" where
  "categorizeConditions [] st = Inr st"
| "categorizeConditions (cond # conditions) (mingledConditions, spanConditions, resourceConditions) =
     (let scope = Scope (Attribute cond);
          scope = (if Scope (Attribute cond) = AttributeScopeNone
                   then (case intrinsicColumnLookups (Intrinsic (Attribute cond)) of
                           Some (lookupScope, _, _) \<Rightarrow> lookupScope
                         | None \<Rightarrow> scope)
                   else scope)
      in case scope of
        AttributeScopeNone \<Rightarrow>
          categorizeConditions conditions
            (True, spanConditions @ [cond], resourceConditions @ [cond])
      | AttributeScopeSpan \<Rightarrow>
          categorizeConditions conditions
            (mingledConditions, spanConditions @ [cond], resourceConditions)
      | AttributeScopeResource \<Rightarrow>
          categorizeConditions conditions
            (mingledConditions, spanConditions, resourceConditions @ [cond])
      | AttributeScopeUnknown _ \<Rightarrow> Inl (Errorf ''unsupported traceql scope''))"

text \<open>
  The slice expression \<open>xs[lo:hi]\<close> of Go on a slice whose capacity is its length: it
  panics unless \<open>0 \<le> lo \<le> hi \<le> len(xs)\<close>.
\<close>

definition slice :: "'a list \<Rightarrow> int64 \<Rightarrow> int64 \<Rightarrow> error + 'a list" where
  "slice xs lo hi =
     (if 0 \<le>s lo \<and> lo \<le>s hi \<and> sint hi \<le> int (length xs)
      then Inr (take (nat (sint hi) - nat (sint lo)) (drop (nat (sint lo)) xs))
      else Inl PanicSliceBounds)"

text \<open>The choice of the row groups in \<open>fetch\<close>; the additions are those of Go's \<open>int\<close>.\<close>

definition selectRowGroups :: "'rg list \<Rightarrow> SearchOptions \<Rightarrow> error + 'rg list" where
  "selectRowGroups rgs opts =
     (if 0 <s TotalPages opts
      then (let opts = (if of_nat (length rgs) <s StartPage opts + TotalPages opts
                        then opts\<lparr>TotalPages := of_nat (length rgs) - StartPage opts\<rparr>
                        else opts)
            in slice rgs (StartPage opts) (StartPage opts + TotalPages opts))
      else Inr rgs)"

definition fetch ::
  "(string \<Rightarrow> error option) \<Rightarrow> FetchSpansRequest \<Rightarrow> 'rg File \<Rightarrow> SearchOptions \<Rightarrow>
   error + 'rg Iterator" where
  "fetch rx req pf opts =
     (case categorizeConditions (Conditions req) (False, [], []) of
        Inl err \<Rightarrow> Inl err
      | Inr (mingledConditions, spanConditions, resourceConditions) \<Rightarrow>
          (case selectRowGroups (RowGroups pf) opts of
             Inl err \<Rightarrow> Inl err
           | Inr rgs \<Rightarrow>
               (let makeIter = makeIterFunc rgs;
                    spanRequireAtLeastOneMatch =
                      (0 < length spanConditions \<and> length resourceConditions = 0);
                    batchRequireAtLeastOneMatch =
                      (length spanConditions = 0 \<and> 0 < length resourceConditions);
                    batchRequireAtLeastOneMatchOverall = (0 < length (Conditions req));
                    allConditions = (AllConditions req \<and> \<not> mingledConditions)
                in case createSpanIterator makeIter rx spanConditions
                          (FetchSpansRequest.StartTimeUnixNanos req) (EndTimeUnixNanos req)
                          spanRequireAtLeastOneMatch allConditions of
                     Inl err \<Rightarrow> Inl (Wrap err ''creating span iterator'')
                   | Inr spanIter \<Rightarrow>
                       (case createResourceIterator makeIter rx spanIter resourceConditions
                               batchRequireAtLeastOneMatch batchRequireAtLeastOneMatchOverall
                               allConditions of
                          Inl err \<Rightarrow> Inl (Wrap err ''creating resource iterator'')
                        | Inr resourceIter \<Rightarrow> Inr (createTraceIterator makeIter resourceIter)))))"

text \<open>
  \<open>Fetch\<close>.  Opening the block for search is the only step that touches the backend; it
  is the parameter \<open>openForSearch\<close>, a function of the state \<open>w\<close> of the backend that
  returns the file and the reader whose byte count the response reports.
\<close>

record ('rg, 'rr) FetchSpansResponse =
  Results :: "'rg Iterator"
  Bytes :: 'rr

definition Fetch ::
  "(SearchOptions \<Rightarrow> 'w \<Rightarrow> (error + 'rg File \<times> 'rr) \<times> 'w) \<Rightarrow> (string \<Rightarrow> error option) \<Rightarrow>
   FetchSpansRequest \<Rightarrow> SearchOptions \<Rightarrow> 'w \<Rightarrow> (error + ('rg, 'rr) FetchSpansResponse) \<times> 'w" where
  "Fetch openForSearch rx req opts w =
     (case checkConditions (Conditions req) of
        Some err \<Rightarrow> (Inl (Wrap err ''conditions invalid''), w)
      | None \<Rightarrow>
          (case openForSearch opts w of
             (Inl err, w') \<Rightarrow> (Inl err, w')
           | (Inr (pf, rr), w') \<Rightarrow>
               (case fetch rx req pf opts of
                  Inl err \<Rightarrow> (Inl (Wrap err ''creating fetch iter''), w')
                | Inr iter \<Rightarrow> (Inr \<lparr>Results = iter, Bytes = rr\<rparr>, w'))))"

section \<open>The merge of spanset iterators\<close>

text \<open>
  \<open>mergeSpansetIterator\<close>.  A sub-iterator is a state \<open>'it\<close> with the function \<open>nxt\<close>
  that reads it: \<open>nxt ctx it\<close> returns an error, the end of the stream (\<open>None\<close>) or a
  spanset, and the sub-iterator as the read leaves it.
\<close>

record 'it mergeSpansetIterator =
  iters :: "'it list"
  cur :: nat

function mergeSpansetIterator_Next ::
  "('ctx \<Rightarrow> 'it \<Rightarrow> (error + 's option) \<times> 'it) \<Rightarrow> 'ctx \<Rightarrow> 'it mergeSpansetIterator \<Rightarrow>
   (error + 's option) \<times> 'it mergeSpansetIterator" where
  "mergeSpansetIterator_Next nxt ctx i =
     (if length (iters i) \<le> cur i then (Inr None, i)
      else case nxt ctx (iters i ! cur i) of
        (Inl err, iter) \<Rightarrow> (Inl err, i\<lparr>iters := (iters i)[cur i := iter]\<rparr>)
      | (Inr None, iter) \<Rightarrow>
          mergeSpansetIterator_Next nxt ctx (i\<lparr>iters := (iters i)[cur i := iter], cur := cur i + 1\<rparr>)
      | (Inr (Some spanset), iter) \<Rightarrow>
          (Inr (Some spanset), i\<lparr>iters := (iters i)[cur i := iter]\<rparr>))"
  by pat_completeness auto
termination
  by (relation "measure (\<lambda>(nxt, ctx, i). length (iters i) - cur i)") auto

declare mergeSpansetIterator_Next.simps [simp del]

section \<open>The collectors\<close>

text \<open>
  A value of the columnar file library: its kind (\<open>KindNull\<close> is the null value, whose
  kind is negative), the 64 bits that hold a boolean, an integer or a float, and the
  bytes of a byte array.  The accessors read these fields.
\<close>

datatype Kind =
    KindNull | Boolean | Int32 | Int64 | Int96 | Float | Double | ByteArray | FixedLenByteArray

record Value =
  kind :: Kind
  u64 :: uint64
  byteArray :: string

definition Value_Uint64 :: "Value \<Rightarrow> uint64" where "Value_Uint64 v = u64 v"
definition Value_Int64 :: "Value \<Rightarrow> int64" where "Value_Int64 v = u64 v"
definition Value_Double :: "Value \<Rightarrow> float64" where "Value_Double v = u64 v"
definition Value_Boolean :: "Value \<Rightarrow> bool" where "Value_Boolean v = (u64 v \<noteq> 0)"
definition Value_ByteArray :: "Value \<Rightarrow> string" where "Value_ByteArray v = byteArray v"
definition Value_String :: "Value \<Rightarrow> string" where "Value_String v = byteArray v"

text \<open>
  A span and a spanset.  The attributes of a span are a Go map; here they are an
  association list that is written with \<open>AList.update\<close> and read with \<open>map_of\<close>.
\<close>

type_synonym attrs = "(Attribute \<times> Static) list"

record Span =
  ID :: string
  StartTimeUnixNanos :: uint64
  EndtimeUnixNanos :: uint64
  Attributes :: attrs

record Spanset =
  TraceID :: string
  StartTimeUnixNanos :: uint64
  DurationNanos :: uint64
  RootSpanName :: string
  RootServiceName :: string
  Spans :: "Span list"

text \<open>
  The result of an iterator for one group: the column entries, and the values that the
  collectors below pass upward (a span, a static value or a spanset).
\<close>

datatype OtherValue = SpanValue Span | StaticValue Static | SpansetValue Spanset

record IteratorResult =
  Entries :: "(string \<times> Value) list"
  OtherEntries :: "(string \<times> OtherValue) list"

definition newSpanAttr :: "string \<Rightarrow> Attribute" where
  "newSpanAttr name = NewScopedAttribute AttributeScopeSpan False name"

definition newResAttr :: "string \<Rightarrow> Attribute" where
  "newResAttr name = NewScopedAttribute AttributeScopeResource False name"

subsection \<open>The span collector\<close>

text \<open>The first loop: \<open>e.Value.(traceql.Static)\<close> panics on any other value.\<close>

fun spanOtherEntries :: "(string \<times> OtherValue) list \<Rightarrow> attrs \<Rightarrow> error + attrs" where
  "spanOtherEntries [] a = Inr a"
| "spanOtherEntries ((key, StaticValue v) # es) a =
     spanOtherEntries es (AList.update (newSpanAttr key) v a)"
| "spanOtherEntries ((key, _) # es) a = Inl PanicTypeAssertion"

text \<open>\<open>traceql.Status(n)\<close>: 0, 1 and 2 are the codes of the three named values.\<close>

definition Status_of :: "uint64 \<Rightarrow> Status" where
  "Status_of n =
     (if n = 0 then StatusError else if n = 1 then StatusOk
      else if n = 2 then StatusUnset else StatusRaw n)"

text \<open>
  The body of the second loop, the \<open>switch kv.Key\<close>.  The OTLP status codes are
  0 (unset), 1 (ok) and 2 (error).
\<close>

definition spanEntry :: "string \<times> Value \<Rightarrow> Span \<Rightarrow> Span" where
  "spanEntry kv sp =
     (let key = fst kv; v = snd kv in
      if key = columnPathSpanID then sp\<lparr>ID := Value_ByteArray v\<rparr>
      else if key = columnPathSpanStartTime
      then sp\<lparr>Span.StartTimeUnixNanos := Value_Uint64 v\<rparr>
      else if key = columnPathSpanEndTime then sp\<lparr>EndtimeUnixNanos := Value_Uint64 v\<rparr>
      else if key = columnPathSpanName
      then sp\<lparr>Attributes :=
             AList.update (NewIntrinsic IntrinsicName) (NewStaticString (Value_String v))
               (Attributes sp)\<rparr>
      else if key = columnPathSpanStatusCode
      then (let status =
                  (if Value_Uint64 v = 0 then StatusUnset
                   else if Value_Uint64 v = 1 then StatusOk
                   else if Value_Uint64 v = 2 then StatusError
                   else Status_of (Value_Uint64 v))
            in sp\<lparr>Attributes :=
                 AList.update (NewIntrinsic IntrinsicStatus) (NewStaticStatus status)
                   (Attributes sp)\<rparr>)
      else (case kind v of
              Boolean \<Rightarrow>
                sp\<lparr>Attributes :=
                  AList.update (newSpanAttr key) (NewStaticBool (Value_Boolean v)) (Attributes sp)\<rparr>
            | Int32 \<Rightarrow>
                sp\<lparr>Attributes :=
                  AList.update (newSpanAttr key) (NewStaticInt (Value_Int64 v)) (Attributes sp)\<rparr>
            | Int64 \<Rightarrow>
                sp\<lparr>Attributes :=
                  AList.update (newSpanAttr key) (NewStaticInt (Value_Int64 v)) (Attributes sp)\<rparr>
            | Float \<Rightarrow>
                sp\<lparr>Attributes :=
                  AList.update (newSpanAttr key) (NewStaticFloat (Value_Double v)) (Attributes sp)\<rparr>
            | ByteArray \<Rightarrow>
                sp\<lparr>Attributes :=
                  AList.update (newSpanAttr key) (NewStaticString (Value_String v))
                    (Attributes sp)\<rparr>
            | _ \<Rightarrow> sp))"

text \<open>The computed duration is saved when some duration filter is nil or accepts it.\<close>

definition spanDuration :: "GenericPredicate_int64 option list \<Rightarrow> Span \<Rightarrow> Span" where
  "spanDuration filters sp =
     (if 0 < length filters
      then (let duration = EndtimeUnixNanos sp - Span.StartTimeUnixNanos sp in
            if list_ex (\<lambda>f. case f of None \<Rightarrow> True | Some p \<Rightarrow> Fn p duration) filters
            then sp\<lparr>Attributes :=
                   AList.update (NewIntrinsic IntrinsicDuration) (NewStaticDuration duration)
                     (Attributes sp)\<rparr>
            else sp)
      else sp)"

text \<open>The number of attributes of a span whose type is not nil.\<close>

definition nonNilCount :: "attrs \<Rightarrow> nat" where
  "nonNilCount a = length (filter (\<lambda>kv. Type (snd kv) \<noteq> TypeNil) a)"

text \<open>
  \<open>spanCollector.KeepGroup\<close>: an error for a panic, \<open>None\<close> when the group is rejected,
  and the rewritten result when it is kept.
\<close>

definition spanCollector_KeepGroup ::
  "spanCollector \<Rightarrow> IteratorResult \<Rightarrow> error + IteratorResult option" where
  "spanCollector_KeepGroup c res =
     (case spanOtherEntries (OtherEntries res) [] of
        Inl err \<Rightarrow> Inl err
      | Inr a \<Rightarrow>
          (let sp = \<lparr>ID = [], Span.StartTimeUnixNanos = 0, EndtimeUnixNanos = 0, Attributes = a\<rparr>;
               sp = fold spanEntry (Entries res) sp;
               sp = spanDuration (durationFilters c) sp
           in if 0 < spanCollector.minAttributes c
                 \<and> nonNilCount (Attributes sp) < spanCollector.minAttributes c
              then Inr None
              else Inr (Some \<lparr>Entries = [], OtherEntries = [(''span'', SpanValue sp)]\<rparr>)))"

subsection \<open>The batch collector\<close>

text \<open>The first loop: the spans of the group, and its resource attributes.\<close>

fun batchOtherEntries ::
  "(string \<times> OtherValue) list \<Rightarrow> attrs \<times> Span list \<Rightarrow> attrs \<times> Span list" where
  "batchOtherEntries [] st = st"
| "batchOtherEntries ((key, SpanValue sp) # es) (resAttrs, spans) =
     batchOtherEntries es (resAttrs, spans @ [sp])"
| "batchOtherEntries ((key, StaticValue v) # es) (resAttrs, spans) =
     batchOtherEntries es (AList.update (newResAttr key) v resAttrs, spans)"
| "batchOtherEntries ((key, SpansetValue _) # es) st = batchOtherEntries es st"

text \<open>The attributes of the dedicated resource columns.\<close>

definition batchEntry :: "string \<times> Value \<Rightarrow> attrs \<Rightarrow> attrs" where
  "batchEntry e resAttrs =
     (case kind (snd e) of
        Int64 \<Rightarrow> AList.update (newResAttr (fst e)) (NewStaticInt (Value_Int64 (snd e))) resAttrs
      | ByteArray \<Rightarrow>
          AList.update (newResAttr (fst e)) (NewStaticString (Value_String (snd e))) resAttrs
      | _ \<Rightarrow> resAttrs)"

text \<open>
  The copy of the resource attributes onto one span: an attribute is written unless the
  span has an entry under the same key.
\<close>

definition copyResAttrs :: "attrs \<Rightarrow> Span \<Rightarrow> Span" where
  "copyResAttrs resAttrs sp =
     fold (\<lambda>(k, v) sp.
             if map_of (Attributes sp) k = None
             then sp\<lparr>Attributes := AList.update k v (Attributes sp)\<rparr>
             else sp)
       resAttrs sp"

text \<open>The removal of the attributes whose type is nil.\<close>

definition removeUnmatched :: "Span \<Rightarrow> Span" where
  "removeUnmatched sp =
     sp\<lparr>Attributes := filter (\<lambda>kv. Type (snd kv) \<noteq> TypeNil) (Attributes sp)\<rparr>"

definition batchCollector_KeepGroup ::
  "batchCollector \<Rightarrow> IteratorResult \<Rightarrow> IteratorResult option" where
  "batchCollector_KeepGroup c res =
     (let (resAttrs, spans) = batchOtherEntries (OtherEntries res) ([], []) in
      if length spans = 0 then None
      else
        (let resAttrs = fold batchEntry (Entries res) resAttrs in
         if 0 < batchCollector.minAttributes c \<and> length resAttrs < batchCollector.minAttributes c
         then None
         else
           (let spans = map (copyResAttrs resAttrs) spans;
                spans = map removeUnmatched spans;
                sp = (if requireAtLeastOneMatchOverall c
                      then filter (\<lambda>s. 0 < length (Attributes s)) spans
                      else spans)
            in if length sp = 0 then None
               else Some \<lparr>Entries = [],
                          OtherEntries =
                            [(''spanset'',
                              SpansetValue \<lparr>TraceID = [], Spanset.StartTimeUnixNanos = 0,
                                DurationNanos = 0, RootSpanName = [], RootServiceName = [],
                                Spans = sp\<rparr>)]\<rparr>)))"

subsection \<open>The trace collector and the attribute collector\<close>

definition traceEntry :: "string \<times> Value \<Rightarrow> Spanset \<Rightarrow> Spanset" where
  "traceEntry e finalSpanset =
     (if fst e = columnPathTraceID then finalSpanset\<lparr>TraceID := Value_ByteArray (snd e)\<rparr>
      else if fst e = columnPathStartTimeUnixNano
      then finalSpanset\<lparr>Spanset.StartTimeUnixNanos := Value_Uint64 (snd e)\<rparr>
      else if fst e = columnPathDurationNanos
      then finalSpanset\<lparr>DurationNanos := Value_Uint64 (snd e)\<rparr>
      else if fst e = columnPathRootSpanName
      then finalSpanset\<lparr>RootSpanName := Value_String (snd e)\<rparr>
      else if fst e = columnPathRootServiceName
      then finalSpanset\<lparr>RootServiceName := Value_String (snd e)\<rparr>
      else finalSpanset)"

definition traceOtherEntry :: "string \<times> OtherValue \<Rightarrow> Spanset \<Rightarrow> Spanset" where
  "traceOtherEntry e finalSpanset =
     (case snd e of
        SpansetValue spanset \<Rightarrow> finalSpanset\<lparr>Spans := Spans finalSpanset @ Spans spanset\<rparr>
      | _ \<Rightarrow> finalSpanset)"

definition traceCollector_KeepGroup :: "IteratorResult \<Rightarrow> IteratorResult option" where
  "traceCollector_KeepGroup res =
     (let finalSpanset = \<lparr>TraceID = [], Spanset.StartTimeUnixNanos = 0, DurationNanos = 0,
                           RootSpanName = [], RootServiceName = [], Spans = []\<rparr>;
          finalSpanset = fold traceEntry (Entries res) finalSpanset;
          finalSpanset = fold traceOtherEntry (OtherEntries res) finalSpanset
      in Some \<lparr>Entries = [], OtherEntries = [(''spanset'', SpansetValue finalSpanset)]\<rparr>)"

definition attributeEntry :: "string \<times> Value \<Rightarrow> string \<times> Static \<Rightarrow> string \<times> Static" where
  "attributeEntry e st =
     (if kind (snd e) = KindNull then st
      else if fst e = ''key'' then (Value_String (snd e), snd st)
      else if fst e = ''string'' then (fst st, NewStaticString (Value_String (snd e)))
      else if fst e = ''int'' then (fst st, NewStaticInt (Value_Int64 (snd e)))
      else if fst e = ''float'' then (fst st, NewStaticFloat (Value_Double (snd e)))
      else if fst e = ''bool'' then (fst st, NewStaticBool (Value_Boolean (snd e)))
      else st)"

definition attributeCollector_KeepGroup :: "IteratorResult \<Rightarrow> IteratorResult option" where
  "attributeCollector_KeepGroup res =
     (let (key, val) = fold attributeEntry (Entries res) ([], StaticNil)
      in Some \<lparr>Entries = [], OtherEntries = [(key, StaticValue val)]\<rparr>)"

section \<open>The SLO hook of the query frontend\<close>

text \<open>
  The hook computes the throughput in floating point.  The operations on \<open>float64\<close> that
  it uses are a parameter, so that what is proved holds for every floating-point
  arithmetic: \<open>0.0\<close>, \<open><\<close>, \<open>\<le>\<close>, \<open>/\<close>, the conversion \<open>float64(n)\<close> of a \<open>uint64\<close> and
  \<open>Duration.Seconds\<close>.
\<close>

record 'f floatOps =
  fzero :: 'f
  fless :: "'f \<Rightarrow> 'f \<Rightarrow> bool"
  fle :: "'f \<Rightarrow> 'f \<Rightarrow> bool"
  fdiv :: "'f \<Rightarrow> 'f \<Rightarrow> 'f"
  fromUint64 :: "uint64 \<Rightarrow> 'f"
  Seconds :: "int64 \<Rightarrow> 'f"

text \<open>The same operations on exact numbers, for evaluation at inputs without rounding.\<close>

definition exactOps :: "real floatOps" where
  "exactOps =
     \<lparr>fzero = 0, fless = (<), fle = (\<le>), fdiv = (/),
      fromUint64 = (\<lambda>n. real (unat n)),
      Seconds = (\<lambda>d. real_of_int (sint d) / 1000000000)\<rparr>"

record 'f SLOConfig =
  DurationSLO :: int64
  ThroughputBytesSLO :: 'f

text \<open>
  What the hook reads of its arguments: the status code of the response, and of the
  error its gRPC status code (\<open>status.Code(err)\<close>) and whether it is a cancellation of the
  context (\<open>errors.Is(err, context.Canceled)\<close>).
\<close>

record Response =
  StatusCode :: int64

record goError =
  grpcCode :: nat
  isContextCanceled :: bool

definition ResourceExhausted :: nat where
  "ResourceExhausted = 8"

text \<open>
  The metrics that the hook writes: the two counters it is given, per tenant, and the
  observations of the throughput histogram.
\<close>

record 'f metrics =
  allByTenantCounter :: "string \<Rightarrow> nat"
  withinSLOByTenantCounter :: "string \<Rightarrow> nat"
  searchThroughput :: "(string \<times> 'f) list"

definition incAll :: "string \<Rightarrow> 'f metrics \<Rightarrow> 'f metrics" where
  "incAll tenant m =
     m\<lparr>allByTenantCounter := (allByTenantCounter m)(tenant := allByTenantCounter m tenant + 1)\<rparr>"

definition incWithinSLO :: "string \<Rightarrow> 'f metrics \<Rightarrow> 'f metrics" where
  "incWithinSLO tenant m =
     m\<lparr>withinSLOByTenantCounter :=
         (withinSLOByTenantCounter m)(tenant := withinSLOByTenantCounter m tenant + 1)\<rparr>"

definition sloHook ::
  "'f floatOps \<Rightarrow> 'f SLOConfig \<Rightarrow> Response option \<Rightarrow> string \<Rightarrow> uint64 \<Rightarrow> int64 \<Rightarrow>
   goError option \<Rightarrow> 'f metrics \<Rightarrow> 'f metrics" where
  "sloHook fl cfg resp tenant bytesProcessed latency err m =
     (let m = incAll tenant m in
      case err of
        Some e \<Rightarrow>
          if grpcCode e = ResourceExhausted \<or> isContextCanceled e
          then incWithinSLO tenant m else m
      | None \<Rightarrow>
          if (case resp of None \<Rightarrow> False | Some r \<Rightarrow> 500 \<le>s StatusCode r) then m
          else
            (let (passedThroughput, m) =
                   (if fless fl (fzero fl) (ThroughputBytesSLO cfg)
                    then (let seconds = Seconds fl latency;
                              throughput =
                                (if fless fl (fzero fl) seconds
                                 then fdiv fl (fromUint64 fl bytesProcessed) seconds
                                 else fzero fl);
                              m = m\<lparr>searchThroughput := searchThroughput m @ [(tenant, throughput)]\<rparr>
                          in (fle fl (ThroughputBytesSLO cfg) throughput, m))
                    else (False, m));
                 passedDuration =
                   (if 0 <s DurationSLO cfg
                    then DurationSLO cfg = 0 \<or> latency <s DurationSLO cfg
                    else False);
                 hasConfiguredSLO =
                   (0 <s DurationSLO cfg \<or> fless fl (fzero fl) (ThroughputBytesSLO cfg))
             in if \<not> passedDuration \<and> \<not> passedThroughput \<and> hasConfiguredSLO then m
                else incWithinSLO tenant m))"

section \<open>Auxiliary notions for the properties\<close>

text \<open>The scope that the first loop of \<open>fetch\<close> computes for a condition.\<close>

definition effectiveScope :: "Condition \<Rightarrow> AttributeScope" where
  "effectiveScope cond =
     (if Scope (Attribute cond) = AttributeScopeNone
      then (case intrinsicColumnLookups (Intrinsic (Attribute cond)) of
              Some (lookupScope, _, _) \<Rightarrow> lookupScope
            | None \<Rightarrow> Scope (Attribute cond))
      else Scope (Attribute cond))"


text \<open>The throughput that the hook computes when the throughput bound is configured.\<close>

definition throughputOf :: "'f floatOps \<Rightarrow> uint64 \<Rightarrow> int64 \<Rightarrow> 'f" where
  "throughputOf fl bytesProcessed latency =
     (if fless fl (fzero fl) (Seconds fl latency)
      then fdiv fl (fromUint64 fl bytesProcessed) (Seconds fl latency)
      else fzero fl)"

text \<open>
  The resource attributes and the spans that \<open>batchCollector.KeepGroup\<close> collects from a
  group: the values of \<open>resAttrs\<close> and \<open>spans\<close> after its first two loops.
\<close>

definition batchResAttrs :: "IteratorResult \<Rightarrow> attrs" where
  "batchResAttrs res =
     fold batchEntry (Entries res) (fst (batchOtherEntries (OtherEntries res) ([], [])))"

definition batchSpans :: "IteratorResult \<Rightarrow> Span list" where
  "batchSpans res = snd (batchOtherEntries (OtherEntries res) ([], []))"

text \<open>No key of an attribute list has resource scope.\<close>

definition spanKeys :: "attrs \<Rightarrow> bool" where
  "spanKeys a = list_all (\<lambda>kv. Scope (fst kv) \<noteq> AttributeScopeResource) a"

text \<open>
  Modelled from the spec: what package \<open>parquetquery\<close>, whose code is not among the
  sources, does with a range predicate and a required child of a left join.
  \<open>NewIntBetweenPredicate(min, max)\<close> keeps the values \<open>v\<close> with \<open>min \<le> v \<le> max\<close>, read as
  \<open>int64\<close>.  A column iterator yields only entries that its predicate keeps, under the
  name it was given, and a left join emits a group only when every required child has
  produced an entry for it.  \<open>requiredKept\<close> says this of the required column iterators
  with a range predicate and the entries of a group; of the other children it says
  nothing.
\<close>

definition IntBetweenPredicate_KeepValue :: "int64 \<Rightarrow> int64 \<Rightarrow> Value \<Rightarrow> bool" where
  "IntBetweenPredicate_KeepValue lo hi v = (lo \<le>s Value_Int64 v \<and> Value_Int64 v \<le>s hi)"

fun columnKept :: "'rg Iterator \<Rightarrow> (string \<times> Value) list \<Rightarrow> bool" where
  "columnKept (ColumnIterator rgs path (Some (IntBetweenPredicate lo hi)) selectAs) es =
     (list_ex (\<lambda>e. fst e = selectAs) es \<and>
      list_all (\<lambda>e. fst e = selectAs \<longrightarrow> IntBetweenPredicate_KeepValue lo hi (snd e)) es)"
| "columnKept _ es = True"

definition requiredKept :: "'rg Iterator list \<Rightarrow> IteratorResult \<Rightarrow> bool" where
  "requiredKept required res = list_all (\<lambda>it. columnKept it (Entries res)) required"

section \<open>Properties\<close>

lemma checkOp_None_iff:
  "checkOp op n = None \<longleftrightarrow>
     (op = OpNone \<and> n = 0) \<or>
     (op \<in> {OpEqual, OpNotEqual, OpGreater, OpGreaterEqual, OpLess, OpLessEqual, OpRegex} \<and> n = 1)"
  by (cases op) auto

lemma checkConditions_None_iff:
  "checkConditions cs = None \<longleftrightarrow> (\<forall>c \<in> set cs. checkOp (Op c) (length (Operands c)) = None)"
proof (induction cs)
  case Nil
  show ?case by simp
next
  case (Cons c cs)
  show ?case
  proof (cases "checkOp (Op c) (length (Operands c))")
    case (Some e)
    then show ?thesis by simp
  next
    case None
    then have "length (Operands c) = 0 \<or> length (Operands c) = 1"
      by (auto simp: checkOp_None_iff)
    then have "\<not> list_ex (\<lambda>operand. reflect_TypeOf (hd (Operands c)) \<noteq> reflect_TypeOf operand)
                    (tl (Operands c))"
      by (simp add: reflect_TypeOf_def list_ex_iff)
    with None Cons.IH show ?thesis by (simp add: Let_def)
  qed
qed

lemma sle_antisym: "(a::int64) \<le>s b \<Longrightarrow> b \<le>s a \<Longrightarrow> a = b"
  by (metis word_sle_eq antisym signed_word_eqI)

lemma intClosures_sound:
  assumes "intClosures op i = Inr p" and "Fn p v" and "lo \<le>s v" and "v \<le>s hi"
  shows "RangeFn p lo hi"
proof (cases "op = OpNotEqual")
  case True
  with assms have "v \<noteq> i" and p: "RangeFn p lo hi \<longleftrightarrow> lo \<noteq> i \<or> hi \<noteq> i"
    by (auto simp: NewIntPredicate_def)
  with assms(3,4) sle_antisym [of i v] show ?thesis
    by auto
next
  case False
  with assms show ?thesis
    by (cases op) (auto simp: NewIntPredicate_def word_sle_eq word_sless_alt)
qed

text \<open>
  C6.  Page pruning of the integer predicates is sound.  For each of the six comparison
  operators and an operand of type int, \<open>createIntPredicate\<close> returns a predicate, and
  whenever its value function accepts \<open>v\<close> and the page bounds satisfy
  \<open>min \<le> v \<le> max\<close> (signed 64-bit order), its range function accepts the page.
\<close>

theorem createIntPredicate_pruning_sound:
  "op \<in> {OpEqual, OpNotEqual, OpGreater, OpGreaterEqual, OpLess, OpLessEqual} \<Longrightarrow>
   \<exists>p. createIntPredicate op [NewStaticInt i] = Inr (Some p) \<and>
       (\<forall>v lo hi. Fn p v \<and> lo \<le>s v \<and> v \<le>s hi \<longrightarrow> RangeFn p lo hi)"
proof -
  assume op: "op \<in> {OpEqual, OpNotEqual, OpGreater, OpGreaterEqual, OpLess, OpLessEqual}"
  then obtain p where p: "intClosures op i = Inr p"
    by auto
  from op have "op \<noteq> OpNone" by auto
  with p have "createIntPredicate op [NewStaticInt i] = Inr (Some p)"
    by (simp add: createIntPredicate_def NewStaticInt_def StaticNil_def)
  moreover have "\<forall>v lo hi. Fn p v \<and> lo \<le>s v \<and> v \<le>s hi \<longrightarrow> RangeFn p lo hi"
    using intClosures_sound [OF p] by blast
  ultimately show ?thesis by blast
qed

theorem createIntPredicate_pruning_sound_witness:
  "\<exists>p. createIntPredicate OpGreater [NewStaticInt 10] = Inr (Some p) \<and>
       Fn p 12 \<and> RangeFn p 3 20"
proof -
  have "OpGreater \<in> {OpEqual, OpNotEqual, OpGreater, OpGreaterEqual, OpLess, OpLessEqual}"
    by simp
  from createIntPredicate_pruning_sound [OF this, of 10]
  obtain p where p: "createIntPredicate OpGreater [NewStaticInt 10] = Inr (Some p)"
    and snd: "\<forall>v lo hi. Fn p v \<and> lo \<le>s v \<and> v \<le>s hi \<longrightarrow> RangeFn p lo hi"
    by blast
  from p have fn: "Fn p 12"
    by (auto simp: createIntPredicate_def NewStaticInt_def StaticNil_def NewIntPredicate_def
        word_sless_alt)
  have "(3::int64) \<le>s 12" "(12::int64) \<le>s 20"
    by (simp_all add: word_sle_eq)
  with fn snd have "RangeFn p 3 20" by blast
  with p fn show ?thesis by blast
qed

subsection \<open>Validation and routing\<close>

lemma categorizeConditions_Inr:
  "categorizeConditions cs (m, sc, rc) = Inr (m', sc', rc') \<Longrightarrow>
     sc' = sc @ filter (\<lambda>c. effectiveScope c \<in> {AttributeScopeNone, AttributeScopeSpan}) cs \<and>
     rc' = rc @ filter (\<lambda>c. effectiveScope c \<in> {AttributeScopeNone, AttributeScopeResource}) cs \<and>
     (m' \<longleftrightarrow> m \<or> (\<exists>c \<in> set cs. effectiveScope c = AttributeScopeNone))"
proof (induction cs arbitrary: m sc rc)
  case Nil
  then show ?case by simp
next
  case (Cons c cs)
  show ?case
  proof (cases "effectiveScope c")
    case AttributeScopeNone
    with Cons.prems have
      "categorizeConditions cs (True, sc @ [c], rc @ [c]) = Inr (m', sc', rc')"
      by (simp add: effectiveScope_def Let_def split: option.splits if_splits prod.splits)
    from Cons.IH [OF this] AttributeScopeNone show ?thesis by auto
  next
    case AttributeScopeResource
    with Cons.prems have
      "categorizeConditions cs (m, sc, rc @ [c]) = Inr (m', sc', rc')"
      by (simp add: effectiveScope_def Let_def split: option.splits if_splits prod.splits)
    from Cons.IH [OF this] AttributeScopeResource show ?thesis by auto
  next
    case AttributeScopeSpan
    with Cons.prems have
      "categorizeConditions cs (m, sc @ [c], rc) = Inr (m', sc', rc')"
      by (simp add: effectiveScope_def Let_def split: option.splits if_splits prod.splits)
    from Cons.IH [OF this] AttributeScopeSpan show ?thesis by auto
  next
    case (AttributeScopeUnknown k)
    with Cons.prems show ?thesis
      by (simp add: effectiveScope_def Let_def split: option.splits if_splits prod.splits)
  qed
qed

lemma effectiveScope_cases:
  "Scope (Attribute c) = AttributeScopeNone \<Longrightarrow> Intrinsic (Attribute c) = IntrinsicNone \<Longrightarrow>
     effectiveScope c = AttributeScopeNone"
  "Scope (Attribute c) = AttributeScopeSpan \<Longrightarrow> effectiveScope c = AttributeScopeSpan"
  "Scope (Attribute c) = AttributeScopeResource \<Longrightarrow> effectiveScope c = AttributeScopeResource"
  by (simp_all add: effectiveScope_def intrinsicColumnLookups_def)

lemma fetch_Inr:
  assumes "fetch rx req pf opts = Inr it"
  shows "\<exists>mingled sc rc rgs spanIter resourceIter.
     categorizeConditions (Conditions req) (False, [], []) = Inr (mingled, sc, rc) \<and>
     selectRowGroups (RowGroups pf) opts = Inr rgs \<and>
     createSpanIterator (makeIterFunc rgs) rx sc
        (FetchSpansRequest.StartTimeUnixNanos req) (EndTimeUnixNanos req)
        (0 < length sc \<and> length rc = 0) (AllConditions req \<and> \<not> mingled) = Inr spanIter \<and>
     createResourceIterator (makeIterFunc rgs) rx spanIter rc
        (length sc = 0 \<and> 0 < length rc) (0 < length (Conditions req))
        (AllConditions req \<and> \<not> mingled) = Inr resourceIter \<and>
     it = createTraceIterator (makeIterFunc rgs) resourceIter"
  using assms unfolding fetch_def Let_def
  by (auto split: sum.splits prod.splits)

lemma checkOp_Some_iff:
  "checkOp op n \<noteq> None \<longleftrightarrow>
     (op = OpNone \<and> n \<noteq> 0) \<or>
     (op \<in> {OpEqual, OpNotEqual, OpGreater, OpGreaterEqual, OpLess, OpLessEqual, OpRegex} \<and> n \<noteq> 1) \<or>
     op \<notin> {OpNone, OpEqual, OpNotEqual, OpGreater, OpGreaterEqual, OpLess, OpLessEqual, OpRegex}"
  by (cases op) auto

text \<open>
  C1.  \<open>Fetch\<close> validates the conditions before it opens the file.  The validation
  fails exactly when some condition is malformed: operator none with an operand, one of
  the seven comparison operators with an operand count other than one, or any other
  operator; so a list of conditions that all respect these arities is accepted.  When the
  validation fails, \<open>Fetch\<close> returns the wrapped error and leaves the backend as it was,
  whatever \<open>openForSearch\<close> would do; when it succeeds, the backend is left as
  \<open>openForSearch\<close> leaves it.
\<close>

theorem Fetch_validation:
  "(checkConditions (Conditions req) \<noteq> None \<longleftrightarrow>
      (\<exists>c \<in> set (Conditions req).
         (Op c = OpNone \<and> length (Operands c) \<noteq> 0) \<or>
         (Op c \<in> {OpEqual, OpNotEqual, OpGreater, OpGreaterEqual, OpLess, OpLessEqual, OpRegex}
            \<and> length (Operands c) \<noteq> 1) \<or>
         Op c \<notin> {OpNone, OpEqual, OpNotEqual, OpGreater, OpGreaterEqual, OpLess, OpLessEqual,
                  OpRegex})) \<and>
   (\<forall>err. checkConditions (Conditions req) = Some err \<longrightarrow>
      Fetch openForSearch rx req opts w = (Inl (Wrap err ''conditions invalid''), w)) \<and>
   (checkConditions (Conditions req) = None \<longrightarrow>
      snd (Fetch openForSearch rx req opts w) = snd (openForSearch opts w))"
proof (intro conjI allI impI)
  show "checkConditions (Conditions req) \<noteq> None \<longleftrightarrow>
      (\<exists>c \<in> set (Conditions req).
         (Op c = OpNone \<and> length (Operands c) \<noteq> 0) \<or>
         (Op c \<in> {OpEqual, OpNotEqual, OpGreater, OpGreaterEqual, OpLess, OpLessEqual, OpRegex}
            \<and> length (Operands c) \<noteq> 1) \<or>
         Op c \<notin> {OpNone, OpEqual, OpNotEqual, OpGreater, OpGreaterEqual, OpLess, OpLessEqual,
                  OpRegex})"
    by (simp only: checkConditions_None_iff checkOp_Some_iff bex_simps ball_simps)
next
  fix err
  assume "checkConditions (Conditions req) = Some err"
  then show "Fetch openForSearch rx req opts w = (Inl (Wrap err ''conditions invalid''), w)"
    by (simp add: Fetch_def)
next
  assume "checkConditions (Conditions req) = None"
  then show "snd (Fetch openForSearch rx req opts w) = snd (openForSearch opts w)"
    by (auto simp: Fetch_def split: prod.splits sum.splits)
qed

theorem Fetch_validation_witness:
  "Fetch (\<lambda>opts w. (Inl (External 0), Suc w)) (\<lambda>s. None)
      \<lparr>FetchSpansRequest.StartTimeUnixNanos = 0, EndTimeUnixNanos = 0,
       Conditions = [\<lparr>Attribute = NewScopedAttribute AttributeScopeSpan False ''foo'',
                      Op = OpEqual, Operands = []\<rparr>],
       AllConditions = False\<rparr>
      \<lparr>StartPage = 0, TotalPages = 0\<rparr> (0::nat)
    = (Inl (Wrap (Errorf ''operation must have exactly 1 argument'') ''conditions invalid''), 0)
   \<and> snd (Fetch (\<lambda>opts w. (Inl (External 0), Suc w)) (\<lambda>s. None)
      \<lparr>FetchSpansRequest.StartTimeUnixNanos = 0, EndTimeUnixNanos = 0,
       Conditions = [\<lparr>Attribute = NewScopedAttribute AttributeScopeSpan False ''foo'',
                      Op = OpEqual, Operands = [NewStaticString ''bar'']\<rparr>],
       AllConditions = False\<rparr>
      \<lparr>StartPage = 0, TotalPages = 0\<rparr> (0::nat)) = 1"
  using Fetch_validation [of
      "\<lparr>FetchSpansRequest.StartTimeUnixNanos = 0, EndTimeUnixNanos = 0,
       Conditions = [\<lparr>Attribute = NewScopedAttribute AttributeScopeSpan False ''foo'',
                      Op = OpEqual, Operands = []\<rparr>],
       AllConditions = False\<rparr>"
      "\<lambda>opts w. (Inl (External 0), Suc w)" "\<lambda>s. None" "\<lparr>StartPage = 0, TotalPages = 0\<rparr>" "0::nat"]
    Fetch_validation [of
      "\<lparr>FetchSpansRequest.StartTimeUnixNanos = 0, EndTimeUnixNanos = 0,
       Conditions = [\<lparr>Attribute = NewScopedAttribute AttributeScopeSpan False ''foo'',
                      Op = OpEqual, Operands = [NewStaticString ''bar'']\<rparr>],
       AllConditions = False\<rparr>"
      "\<lambda>opts w. (Inl (External 0), Suc w)" "\<lambda>s. None" "\<lparr>StartPage = 0, TotalPages = 0\<rparr>" "0::nat"]
  by (simp add: reflect_TypeOf_def)

text \<open>
  C2.  The planner of \<open>fetch\<close> puts every non-intrinsic condition without a scope into
  both the span plan and the resource plan, every condition of span scope into the span
  plan only, and every condition of resource scope into the resource plan only.  When
  some non-intrinsic condition has no scope, the flag \<open>allConditions\<close> that the span and
  the resource iterator are created with is false, whatever \<open>req.AllConditions\<close> is.
\<close>

theorem fetch_scope_routing:
  assumes "categorizeConditions (Conditions req) (False, [], []) =
             Inr (mingledConditions, spanConditions, resourceConditions)"
  shows "(\<forall>c \<in> set (Conditions req).
            (Scope (Attribute c) = AttributeScopeNone \<and> Intrinsic (Attribute c) = IntrinsicNone \<longrightarrow>
               c \<in> set spanConditions \<and> c \<in> set resourceConditions) \<and>
            (Scope (Attribute c) = AttributeScopeSpan \<longrightarrow>
               c \<in> set spanConditions \<and> c \<notin> set resourceConditions) \<and>
            (Scope (Attribute c) = AttributeScopeResource \<longrightarrow>
               c \<in> set resourceConditions \<and> c \<notin> set spanConditions)) \<and>
         ((\<exists>c \<in> set (Conditions req).
             Scope (Attribute c) = AttributeScopeNone \<and> Intrinsic (Attribute c) = IntrinsicNone) \<longrightarrow>
            \<not> (AllConditions req \<and> \<not> mingledConditions)) \<and>
         (\<forall>it. fetch rx req pf opts = Inr it \<longrightarrow>
            (\<exists>rgs spanIter resourceIter.
               createSpanIterator (makeIterFunc rgs) rx spanConditions
                 (FetchSpansRequest.StartTimeUnixNanos req) (EndTimeUnixNanos req)
                 (0 < length spanConditions \<and> length resourceConditions = 0)
                 (AllConditions req \<and> \<not> mingledConditions) = Inr spanIter \<and>
               createResourceIterator (makeIterFunc rgs) rx spanIter resourceConditions
                 (length spanConditions = 0 \<and> 0 < length resourceConditions)
                 (0 < length (Conditions req))
                 (AllConditions req \<and> \<not> mingledConditions) = Inr resourceIter \<and>
               it = createTraceIterator (makeIterFunc rgs) resourceIter))"
proof -
  note cat = categorizeConditions_Inr [OF assms]
  have routing: "\<forall>c \<in> set (Conditions req).
            (Scope (Attribute c) = AttributeScopeNone \<and> Intrinsic (Attribute c) = IntrinsicNone \<longrightarrow>
               c \<in> set spanConditions \<and> c \<in> set resourceConditions) \<and>
            (Scope (Attribute c) = AttributeScopeSpan \<longrightarrow>
               c \<in> set spanConditions \<and> c \<notin> set resourceConditions) \<and>
            (Scope (Attribute c) = AttributeScopeResource \<longrightarrow>
               c \<in> set resourceConditions \<and> c \<notin> set spanConditions)"
    using cat by (auto simp: effectiveScope_cases)
  have mingled: "(\<exists>c \<in> set (Conditions req).
             Scope (Attribute c) = AttributeScopeNone \<and> Intrinsic (Attribute c) = IntrinsicNone) \<longrightarrow>
            \<not> (AllConditions req \<and> \<not> mingledConditions)"
  proof
    assume "\<exists>c \<in> set (Conditions req).
             Scope (Attribute c) = AttributeScopeNone \<and> Intrinsic (Attribute c) = IntrinsicNone"
    then obtain c where "c \<in> set (Conditions req)" "effectiveScope c = AttributeScopeNone"
      using effectiveScope_cases(1) by blast
    with cat have mingledConditions by blast
    then show "\<not> (AllConditions req \<and> \<not> mingledConditions)" by simp
  qed
  have plan: "\<forall>it. fetch rx req pf opts = Inr it \<longrightarrow>
            (\<exists>rgs spanIter resourceIter.
               createSpanIterator (makeIterFunc rgs) rx spanConditions
                 (FetchSpansRequest.StartTimeUnixNanos req) (EndTimeUnixNanos req)
                 (0 < length spanConditions \<and> length resourceConditions = 0)
                 (AllConditions req \<and> \<not> mingledConditions) = Inr spanIter \<and>
               createResourceIterator (makeIterFunc rgs) rx spanIter resourceConditions
                 (length spanConditions = 0 \<and> 0 < length resourceConditions)
                 (0 < length (Conditions req))
                 (AllConditions req \<and> \<not> mingledConditions) = Inr resourceIter \<and>
               it = createTraceIterator (makeIterFunc rgs) resourceIter)"
  proof (intro allI impI)
    fix it
    assume "fetch rx req pf opts = Inr it"
    from fetch_Inr [OF this] assms show "\<exists>rgs spanIter resourceIter.
               createSpanIterator (makeIterFunc rgs) rx spanConditions
                 (FetchSpansRequest.StartTimeUnixNanos req) (EndTimeUnixNanos req)
                 (0 < length spanConditions \<and> length resourceConditions = 0)
                 (AllConditions req \<and> \<not> mingledConditions) = Inr spanIter \<and>
               createResourceIterator (makeIterFunc rgs) rx spanIter resourceConditions
                 (length spanConditions = 0 \<and> 0 < length resourceConditions)
                 (0 < length (Conditions req))
                 (AllConditions req \<and> \<not> mingledConditions) = Inr resourceIter \<and>
               it = createTraceIterator (makeIterFunc rgs) resourceIter"
      by auto
  qed
  from routing mingled plan show ?thesis by blast
qed

theorem fetch_scope_routing_witness:
  "categorizeConditions
     [\<lparr>Attribute = NewScopedAttribute AttributeScopeNone False ''foo'', Op = OpNone, Operands = []\<rparr>,
      \<lparr>Attribute = NewScopedAttribute AttributeScopeSpan False ''a'', Op = OpNone, Operands = []\<rparr>,
      \<lparr>Attribute = NewScopedAttribute AttributeScopeResource False ''b'', Op = OpNone, Operands = []\<rparr>]
     (False, [], []) =
   Inr (True,
     [\<lparr>Attribute = NewScopedAttribute AttributeScopeNone False ''foo'', Op = OpNone, Operands = []\<rparr>,
      \<lparr>Attribute = NewScopedAttribute AttributeScopeSpan False ''a'', Op = OpNone, Operands = []\<rparr>],
     [\<lparr>Attribute = NewScopedAttribute AttributeScopeNone False ''foo'', Op = OpNone, Operands = []\<rparr>,
      \<lparr>Attribute = NewScopedAttribute AttributeScopeResource False ''b'', Op = OpNone, Operands = []\<rparr>])
   \<and> \<not> (True \<and> \<not> True)
   \<and> (\<exists>it. fetch (\<lambda>s. None)
         \<lparr>FetchSpansRequest.StartTimeUnixNanos = 0, EndTimeUnixNanos = 0,
          Conditions =
            [\<lparr>Attribute = NewScopedAttribute AttributeScopeNone False ''foo'', Op = OpNone, Operands = []\<rparr>,
             \<lparr>Attribute = NewScopedAttribute AttributeScopeSpan False ''a'', Op = OpNone, Operands = []\<rparr>,
             \<lparr>Attribute = NewScopedAttribute AttributeScopeResource False ''b'', Op = OpNone, Operands = []\<rparr>],
          AllConditions = True\<rparr>
         \<lparr>RowGroups = [0::nat]\<rparr> \<lparr>StartPage = 0, TotalPages = 0\<rparr> = Inr it)"
proof -
  let ?c1 = "\<lparr>Attribute = NewScopedAttribute AttributeScopeNone False ''foo'', Op = OpNone, Operands = []\<rparr>"
  let ?c2 = "\<lparr>Attribute = NewScopedAttribute AttributeScopeSpan False ''a'', Op = OpNone, Operands = []\<rparr>"
  let ?c3 = "\<lparr>Attribute = NewScopedAttribute AttributeScopeResource False ''b'', Op = OpNone, Operands = []\<rparr>"
  let ?req = "\<lparr>FetchSpansRequest.StartTimeUnixNanos = 0, EndTimeUnixNanos = 0,
          Conditions = [?c1, ?c2, ?c3], AllConditions = True\<rparr>"
  have cat: "categorizeConditions (Conditions ?req) (False, [], []) =
      Inr (True, [?c1, ?c2], [?c1, ?c3])"
    by (simp add: NewScopedAttribute_def intrinsicColumnLookups_def)
  have f: "\<exists>it. fetch (\<lambda>s. None) ?req \<lparr>RowGroups = [0::nat]\<rparr> \<lparr>StartPage = 0, TotalPages = 0\<rparr> = Inr it"
    by (simp add: fetch_def NewScopedAttribute_def intrinsicColumnLookups_def selectRowGroups_def
        createSpanIterator_def createSpanColumnIterators_def createAttributeIterator_def
        createResourceIterator_def createResourceColumIterators_def wellKnownColumnLookups_def
        Label_defs Let_def)
  from fetch_scope_routing [OF cat, of "\<lambda>s. None" "\<lparr>RowGroups = [0::nat]\<rparr>"
      "\<lparr>StartPage = 0, TotalPages = 0\<rparr>"] cat f
  show ?thesis by simp
qed

subsection \<open>Resource column iterators\<close>

text \<open>
  C8.  The claim is that every column iterator built by \<open>createResourceColumIterators\<close>
  appears once in the returned list.  For one condition on the well-known resource
  attribute \<open>service.name\<close> with operator none, the function returns the iterator of the
  service-name column twice: the loop over \<open>columnPredicates\<close> runs before and after the
  optional addition of the well-known columns.
\<close>

theorem createResourceColumIterators_emits_twice:
  "createResourceColumIterators (makeIterFunc [0::nat]) (\<lambda>s. None)
     [\<lparr>Attribute = NewScopedAttribute AttributeScopeResource False LabelServiceName,
       Op = OpNone, Operands = []\<rparr>] False =
   Inr [ColumnIterator [0] columnPathResourceServiceName (Some (OrPredicate [None])) LabelServiceName,
        ColumnIterator [0] columnPathResourceServiceName (Some (OrPredicate [None])) LabelServiceName]"
  by (simp add: createResourceColumIterators_def NewScopedAttribute_def wellKnownColumnLookups_def
      createAttributeIterator_def columnIterators_def addPredicate_def selectAsOf_def
      makeIterFunc_def NewOrPredicate_def Label_defs)

subsection \<open>Row groups\<close>

text \<open>
  C9.  The claim is that the slice of the row groups is always within bounds.  For a
  file of three row groups, \<open>StartPage = 5\<close> and \<open>TotalPages = 2\<close>, the clamp sets
  \<open>TotalPages\<close> to \<open>3 - 5\<close> and the slice \<open>rgs[5:3]\<close> panics.
\<close>

theorem fetch_slice_panics:
  "fetch (\<lambda>s. None)
     \<lparr>FetchSpansRequest.StartTimeUnixNanos = 0, EndTimeUnixNanos = 0, Conditions = [],
      AllConditions = False\<rparr>
     \<lparr>RowGroups = [0, 1, 2 :: nat]\<rparr> \<lparr>StartPage = 5, TotalPages = 2\<rparr> = Inl PanicSliceBounds"
  by (simp add: fetch_def selectRowGroups_def slice_def word_sless_alt word_sle_eq)

subsection \<open>The merge of spanset iterators\<close>

lemma merge_Next_order:
  "mergeSpansetIterator_Next nxt ctx i = (r, i') \<Longrightarrow>
     length (iters i') = length (iters i) \<and> cur i \<le> cur i' \<and>
     (\<forall>k. k < cur i \<longrightarrow> iters i' ! k = iters i ! k) \<and>
     (\<forall>k. cur i \<le> k \<and> k < cur i' \<longrightarrow> nxt ctx (iters i ! k) = (Inr None, iters i' ! k)) \<and>
     (\<forall>k. cur i' < k \<and> k < length (iters i) \<longrightarrow> iters i' ! k = iters i ! k) \<and>
     (cur i' < length (iters i) \<longrightarrow>
        nxt ctx (iters i ! cur i') = (r, iters i' ! cur i') \<and> r \<noteq> Inr None) \<and>
     (r = Inr None \<longleftrightarrow> length (iters i') \<le> cur i')"
proof (induction nxt ctx i arbitrary: r i' rule: mergeSpansetIterator_Next.induct)
  case (1 nxt ctx i)
  show ?case
  proof (cases "length (iters i) \<le> cur i")
    case True
    with "1.prems" show ?thesis
      by (auto simp: mergeSpansetIterator_Next.simps [of nxt ctx i])
  next
    case False
    obtain r0 iter where nx: "nxt ctx (iters i ! cur i) = (r0, iter)"
      by (cases "nxt ctx (iters i ! cur i)")
    show ?thesis
    proof (cases "r0 = Inr None")
      case True
      let ?j = "i\<lparr>iters := (iters i)[cur i := iter], cur := cur i + 1\<rparr>"
      from False nx True "1.prems" have step: "mergeSpansetIterator_Next nxt ctx ?j = (r, i')"
        by (simp add: mergeSpansetIterator_Next.simps [of nxt ctx i])
      have "(r0, iter) = nxt ctx (iters i ! cur i)" using nx by simp
      from "1.IH" [OF False this _ _ step] True
      have IH: "length (iters i') = length (iters ?j)" "cur ?j \<le> cur i'"
        "\<forall>k. k < cur ?j \<longrightarrow> iters i' ! k = iters ?j ! k"
        "\<forall>k. cur ?j \<le> k \<and> k < cur i' \<longrightarrow> nxt ctx (iters ?j ! k) = (Inr None, iters i' ! k)"
        "\<forall>k. cur i' < k \<and> k < length (iters ?j) \<longrightarrow> iters i' ! k = iters ?j ! k"
        "cur i' < length (iters ?j) \<longrightarrow>
           nxt ctx (iters ?j ! cur i') = (r, iters i' ! cur i') \<and> r \<noteq> Inr None"
        "r = Inr None \<longleftrightarrow> length (iters i') \<le> cur i'"
        by auto
      have a: "length (iters i') = length (iters i)" using IH(1) by simp
      have b: "cur i \<le> cur i'" using IH(2) by simp
      have c: "\<forall>k. k < cur i \<longrightarrow> iters i' ! k = iters i ! k"
        using IH(3) by simp
      have d: "\<forall>k. cur i \<le> k \<and> k < cur i' \<longrightarrow> nxt ctx (iters i ! k) = (Inr None, iters i' ! k)"
      proof (intro allI impI)
        fix k assume k: "cur i \<le> k \<and> k < cur i'"
        show "nxt ctx (iters i ! k) = (Inr None, iters i' ! k)"
        proof (cases "k = cur i")
          case True
          with IH(3) False have "iters i' ! k = iter" by simp
          with nx \<open>r0 = Inr None\<close> True show ?thesis by simp
        next
          case False
          with k IH(4) show ?thesis by simp
        qed
      qed
      have e: "\<forall>k. cur i' < k \<and> k < length (iters i) \<longrightarrow> iters i' ! k = iters i ! k"
        using IH(5) b by simp
      have f: "cur i' < length (iters i) \<longrightarrow>
          nxt ctx (iters i ! cur i') = (r, iters i' ! cur i') \<and> r \<noteq> Inr None"
        using IH(6) IH(2) by simp
      from a b c d e f IH(7) show ?thesis by blast
    next
      case False
      with \<open>\<not> length (iters i) \<le> cur i\<close> nx "1.prems"
      have "r = r0" "i' = i\<lparr>iters := (iters i)[cur i := iter]\<rparr>"
        by (auto simp: mergeSpansetIterator_Next.simps [of nxt ctx i]
            split: sum.splits option.splits)
      with False nx \<open>\<not> length (iters i) \<le> cur i\<close> show ?thesis
        by auto
    qed
  qed
qed

text \<open>
  C10.  \<open>mergeSpansetIterator.Next\<close> drains its sub-iterators in index order.  A call
  moves \<open>cur\<close> forward only; every sub-iterator it passes over was read and returned the
  end of its stream; the sub-iterators before the old \<open>cur\<close> and after the new one are
  not read; when the new \<open>cur\<close> is in range, the result is what that sub-iterator
  returned and it is not the end of a stream.  The end of the merged stream is absorbing:
  after \<open>(nil, nil)\<close> every further call returns \<open>(nil, nil)\<close> and changes nothing.  An
  error of the current sub-iterator is returned at once and \<open>cur\<close> stays where it is.
\<close>

theorem mergeSpansetIterator_Next_in_order:
  assumes "mergeSpansetIterator_Next nxt ctx i = (r, i')"
  shows "cur i \<le> cur i' \<and>
     (\<forall>k. cur i \<le> k \<and> k < cur i' \<longrightarrow> nxt ctx (iters i ! k) = (Inr None, iters i' ! k)) \<and>
     (\<forall>k. k < length (iters i) \<and> (k < cur i \<or> cur i' < k) \<longrightarrow> iters i' ! k = iters i ! k) \<and>
     (cur i' < length (iters i) \<longrightarrow>
        nxt ctx (iters i ! cur i') = (r, iters i' ! cur i') \<and> r \<noteq> Inr None) \<and>
     (r = Inr None \<longrightarrow> mergeSpansetIterator_Next nxt ctx i' = (Inr None, i')) \<and>
     (\<forall>err iter. cur i < length (iters i) \<and> nxt ctx (iters i ! cur i) = (Inl err, iter) \<longrightarrow>
        r = Inl err \<and> i' = i\<lparr>iters := (iters i)[cur i := iter]\<rparr>)"
proof -
  note ord = merge_Next_order [OF assms]
  have absorbing: "r = Inr None \<longrightarrow> mergeSpansetIterator_Next nxt ctx i' = (Inr None, i')"
    using ord by (simp add: mergeSpansetIterator_Next.simps [of nxt ctx i'])
  have err: "\<forall>err iter. cur i < length (iters i) \<and> nxt ctx (iters i ! cur i) = (Inl err, iter) \<longrightarrow>
        r = Inl err \<and> i' = i\<lparr>iters := (iters i)[cur i := iter]\<rparr>"
    using assms by (auto simp: mergeSpansetIterator_Next.simps [of nxt ctx i])
  from ord absorbing err show ?thesis by blast
qed


theorem mergeSpansetIterator_Next_in_order_witness:
  "mergeSpansetIterator_Next (\<lambda>ctx it. case it of [] \<Rightarrow> (Inr None, []) | x # xs \<Rightarrow> (x, xs)) ()
      \<lparr>iters = [[], [Inr (Some (7::nat))]], cur = 0\<rparr>
     = (Inr (Some 7), \<lparr>iters = [[], []], cur = 1\<rparr>)
   \<and> mergeSpansetIterator_Next (\<lambda>ctx it. case it of [] \<Rightarrow> (Inr None, []) | x # xs \<Rightarrow> (x, xs)) ()
      \<lparr>iters = [[], [] :: (error + nat option) list], cur = 1\<rparr>
     = (Inr None, \<lparr>iters = [[], []], cur = 2\<rparr>)
   \<and> mergeSpansetIterator_Next (\<lambda>ctx it. case it of [] \<Rightarrow> (Inr None, []) | x # xs \<Rightarrow> (x, xs)) ()
      \<lparr>iters = [[], [] :: (error + nat option) list], cur = 2\<rparr>
     = (Inr None, \<lparr>iters = [[], []], cur = 2\<rparr>)
   \<and> mergeSpansetIterator_Next (\<lambda>ctx it. case it of [] \<Rightarrow> (Inr None, []) | x # xs \<Rightarrow> (x, xs)) ()
      \<lparr>iters = [[Inl (External 1)], [Inr (Some (7::nat))]], cur = 0\<rparr>
     = (Inl (External 1), \<lparr>iters = [[], [Inr (Some 7)]], cur = 0\<rparr>)"
proof -
  let ?nxt = "\<lambda>(ctx::unit) (it::(error + nat option) list).
                case it of [] \<Rightarrow> (Inr None, []) | x # xs \<Rightarrow> (x, xs)"
  have h0: "mergeSpansetIterator_Next ?nxt () \<lparr>iters = [[], []], cur = 2\<rparr>
     = (Inr None, \<lparr>iters = [[], []], cur = 2\<rparr>)"
    by (subst mergeSpansetIterator_Next.simps) simp
  have h2: "mergeSpansetIterator_Next ?nxt () \<lparr>iters = [[], []], cur = 1\<rparr>
     = (Inr None, \<lparr>iters = [[], []], cur = 2\<rparr>)"
    by (subst mergeSpansetIterator_Next.simps) (simp add: h0 [unfolded numeral_2_eq_2])
  have h1': "mergeSpansetIterator_Next ?nxt () \<lparr>iters = [[], [Inr (Some 7)]], cur = 1\<rparr>
     = (Inr (Some 7), \<lparr>iters = [[], []], cur = 1\<rparr>)"
    by (subst mergeSpansetIterator_Next.simps) simp
  have h1: "mergeSpansetIterator_Next ?nxt () \<lparr>iters = [[], [Inr (Some 7)]], cur = 0\<rparr>
     = (Inr (Some 7), \<lparr>iters = [[], []], cur = 1\<rparr>)"
    by (subst mergeSpansetIterator_Next.simps) (simp add: h1' [unfolded One_nat_def])
  have h3: "mergeSpansetIterator_Next ?nxt ()
      \<lparr>iters = [[Inl (External 1)], [Inr (Some 7)]], cur = 0\<rparr>
     = (Inl (External 1), \<lparr>iters = [[], [Inr (Some 7)]], cur = 0\<rparr>)"
    by (subst mergeSpansetIterator_Next.simps) simp
  note absorbing = mergeSpansetIterator_Next_in_order [OF h2, THEN conjunct2, THEN conjunct2,
      THEN conjunct2, THEN conjunct2, THEN conjunct1, THEN mp, OF refl]
  from h1 h2 absorbing h3 show ?thesis
    by (intro conjI)
qed

subsection \<open>The SLO hook\<close>

text \<open>
  C7, as amended.  The handler adds one to the within-SLO counter of the tenant exactly
  in these cases.  With an error: the error is a gRPC resource-exhausted error or a
  cancellation of the context.  Without an error: the status code of the response is
  below 500 and either the duration bound is configured and the latency is below it, or
  the throughput bound is configured and the throughput reaches it, or no bound is
  configured.  The throughput is the bytes processed divided by the latency in seconds
  when these are positive, and zero otherwise.  A bound that is not configured never
  lets a query pass while the other one is configured.
\<close>

theorem sloHook_within_SLO:
  "withinSLOByTenantCounter (sloHook fl cfg resp tenant bytesProcessed latency err m) tenant =
     withinSLOByTenantCounter m tenant +
     (if (case err of
            Some e \<Rightarrow> grpcCode e = ResourceExhausted \<or> isContextCanceled e
          | None \<Rightarrow>
              \<not> (case resp of None \<Rightarrow> False | Some r \<Rightarrow> 500 \<le>s StatusCode r) \<and>
              ((0 <s DurationSLO cfg \<and> latency <s DurationSLO cfg) \<or>
               (fless fl (fzero fl) (ThroughputBytesSLO cfg) \<and>
                fle fl (ThroughputBytesSLO cfg) (throughputOf fl bytesProcessed latency)) \<or>
               \<not> (0 <s DurationSLO cfg \<or> fless fl (fzero fl) (ThroughputBytesSLO cfg))))
      then 1 else 0)"
proof (cases err)
  case (Some e)
  then show ?thesis
    by (simp add: sloHook_def incAll_def incWithinSLO_def)
next
  case None
  show ?thesis
  proof (cases "case resp of None \<Rightarrow> False | Some r \<Rightarrow> 500 \<le>s StatusCode r")
    case True
    with None show ?thesis
      by (simp add: sloHook_def incAll_def incWithinSLO_def)
  next
    case False
    have nz: "0 <s DurationSLO cfg \<Longrightarrow> DurationSLO cfg \<noteq> 0"
      by (auto simp: word_sless_alt)
    from None False nz show ?thesis
      by (auto simp: sloHook_def incAll_def incWithinSLO_def throughputOf_def Let_def)
  qed
qed

text \<open>
  C7, as claimed, says that with some bound configured the counter is incremented iff
  the latency is below \<open>DurationSLO\<close> or the throughput is at least
  \<open>ThroughputBytesSLO\<close>.  With a duration bound of 5 s and no throughput bound, a query of
  10 s that processed 100 bytes has a throughput of 10, which is at least 0, but the
  counter is not incremented.
\<close>

theorem sloHook_claim_counterexample:
  "0 <s DurationSLO \<lparr>DurationSLO = 5000000000, ThroughputBytesSLO = 0\<rparr> \<and>
   \<not> ((withinSLOByTenantCounter
          (sloHook exactOps \<lparr>DurationSLO = 5000000000, ThroughputBytesSLO = 0\<rparr>
             (Some \<lparr>StatusCode = 200\<rparr>) ''t'' 100 10000000000 None
             \<lparr>allByTenantCounter = (\<lambda>t. 0), withinSLOByTenantCounter = (\<lambda>t. 0),
              searchThroughput = []\<rparr>) ''t'' = 1)
        \<longleftrightarrow>
        ((10000000000 :: int64) <s 5000000000 \<or>
         fle exactOps 0 (fdiv exactOps (fromUint64 exactOps 100) (Seconds exactOps 10000000000))))"
  by (simp add: sloHook_def incAll_def incWithinSLO_def exactOps_def word_sless_alt word_sle_eq)

theorem sloHook_within_SLO_witness:
  "withinSLOByTenantCounter
          (sloHook exactOps \<lparr>DurationSLO = 5000000000, ThroughputBytesSLO = 0\<rparr>
             (Some \<lparr>StatusCode = 200\<rparr>) ''t'' 100 10000000000 None
             \<lparr>allByTenantCounter = (\<lambda>t. 0), withinSLOByTenantCounter = (\<lambda>t. 0),
              searchThroughput = []\<rparr>) ''t'' = 0
   \<and> withinSLOByTenantCounter
          (sloHook exactOps \<lparr>DurationSLO = 5000000000, ThroughputBytesSLO = 0\<rparr>
             (Some \<lparr>StatusCode = 200\<rparr>) ''t'' 100 1000000000 None
             \<lparr>allByTenantCounter = (\<lambda>t. 0), withinSLOByTenantCounter = (\<lambda>t. 0),
              searchThroughput = []\<rparr>) ''t'' = 1
   \<and> withinSLOByTenantCounter
          (sloHook exactOps \<lparr>DurationSLO = 0, ThroughputBytesSLO = 50\<rparr>
             (Some \<lparr>StatusCode = 200\<rparr>) ''t'' 1000 10000000000 None
             \<lparr>allByTenantCounter = (\<lambda>t. 0), withinSLOByTenantCounter = (\<lambda>t. 0),
              searchThroughput = []\<rparr>) ''t'' = 1"
  using sloHook_within_SLO [of exactOps "\<lparr>DurationSLO = 5000000000, ThroughputBytesSLO = 0\<rparr>"
      "Some \<lparr>StatusCode = 200\<rparr>" "''t''" 100 10000000000 None
      "\<lparr>allByTenantCounter = (\<lambda>t. 0), withinSLOByTenantCounter = (\<lambda>t. 0),
              searchThroughput = []\<rparr>"]
    sloHook_within_SLO [of exactOps "\<lparr>DurationSLO = 5000000000, ThroughputBytesSLO = 0\<rparr>"
      "Some \<lparr>StatusCode = 200\<rparr>" "''t''" 100 1000000000 None
      "\<lparr>allByTenantCounter = (\<lambda>t. 0), withinSLOByTenantCounter = (\<lambda>t. 0),
              searchThroughput = []\<rparr>"]
    sloHook_within_SLO [of exactOps "\<lparr>DurationSLO = 0, ThroughputBytesSLO = 50\<rparr>"
      "Some \<lparr>StatusCode = 200\<rparr>" "''t''" 1000 10000000000 None
      "\<lparr>allByTenantCounter = (\<lambda>t. 0), withinSLOByTenantCounter = (\<lambda>t. 0),
              searchThroughput = []\<rparr>"]
  by (simp add: exactOps_def throughputOf_def word_sless_alt word_sle_eq)

subsection \<open>The collectors\<close>

lemma update_absent: "map_of a k = None \<Longrightarrow> AList.update k v a = a @ [(k, v)]"
  by (induction a) (auto split: if_splits)

lemma nonNilCount_append: "nonNilCount (a @ b) = nonNilCount a + nonNilCount b"
  by (simp add: nonNilCount_def)

lemma copyResAttrs_fields:
  "ID (copyResAttrs ra sp) = ID sp"
  "Span.StartTimeUnixNanos (copyResAttrs ra sp) = Span.StartTimeUnixNanos sp"
  "EndtimeUnixNanos (copyResAttrs ra sp) = EndtimeUnixNanos sp"
  unfolding copyResAttrs_def
  by (induction ra arbitrary: sp) (auto split: prod.splits)

lemma copyResAttrs_map_of:
  "map_of (Attributes (copyResAttrs ra sp)) = map_of ra ++ map_of (Attributes sp)"
  unfolding copyResAttrs_def
proof (induction ra arbitrary: sp)
  case Nil
  show ?case by simp
next
  case (Cons kv ra)
  obtain k v where kv: "kv = (k, v)" by (cases kv)
  show ?case
  proof (cases "map_of (Attributes sp) k")
    case None
    then show ?thesis
      using Cons.IH [of "sp\<lparr>Attributes := AList.update k v (Attributes sp)\<rparr>"]
      by (auto simp: kv update_conv' map_add_def fun_eq_iff split: option.splits)
  next
    case (Some w)
    then show ?thesis
      using Cons.IH [of sp]
      by (auto simp: kv map_add_def fun_eq_iff split: option.splits)
  qed
qed

lemma copyResAttrs_nonNilCount:
  "nonNilCount (Attributes sp) \<le> nonNilCount (Attributes (copyResAttrs ra sp))"
  unfolding copyResAttrs_def
proof (induction ra arbitrary: sp)
  case Nil
  show ?case by simp
next
  case (Cons kv ra)
  obtain k v where kv: "kv = (k, v)" by (cases kv)
  show ?case
  proof (cases "map_of (Attributes sp) k")
    case None
    have "nonNilCount (Attributes sp)
            \<le> nonNilCount (Attributes (sp\<lparr>Attributes := AList.update k v (Attributes sp)\<rparr>))"
      using None by (simp add: update_absent nonNilCount_append)
    also have "\<dots> \<le> nonNilCount (Attributes (fold (\<lambda>(k, v) sp.
             if map_of (Attributes sp) k = None
             then sp\<lparr>Attributes := AList.update k v (Attributes sp)\<rparr>
             else sp) ra (sp\<lparr>Attributes := AList.update k v (Attributes sp)\<rparr>)))"
      by (rule Cons.IH)
    finally show ?thesis using None by (simp add: kv)
  next
    case (Some w)
    then show ?thesis using Cons.IH [of sp] by (simp add: kv)
  qed
qed

lemma removeUnmatched_nonNilCount:
  "nonNilCount (Attributes (removeUnmatched sp)) = nonNilCount (Attributes sp)"
  by (simp add: removeUnmatched_def nonNilCount_def)

lemma removeUnmatched_no_nil:
  "map_of (Attributes (removeUnmatched sp)) a = Some v \<Longrightarrow> Type v \<noteq> TypeNil"
  by (auto simp: removeUnmatched_def dest!: map_of_SomeD)

lemma map_of_filter_Some:
  "map_of a k = Some v \<Longrightarrow> P (k, v) \<Longrightarrow> map_of (filter P a) k = Some v"
  by (induction a) (auto split: if_splits)

lemma removeUnmatched_keeps:
  "map_of (Attributes sp) a = Some v \<Longrightarrow> Type v \<noteq> TypeNil \<Longrightarrow>
     map_of (Attributes (removeUnmatched sp)) a = Some v"
  by (simp add: removeUnmatched_def map_of_filter_Some)

lemma batchOtherEntries_spans:
  "set (snd (batchOtherEntries es (ra, sps))) = set sps \<union> {sp. \<exists>k. (k, SpanValue sp) \<in> set es}"
  by (induction es "(ra, sps)" arbitrary: ra sps rule: batchOtherEntries.induct) auto

lemma batchOtherEntries_keys:
  "\<forall>a \<in> fst ` set ra. \<exists>name. a = newResAttr name \<Longrightarrow>
     \<forall>a \<in> fst ` set (fst (batchOtherEntries es (ra, sps))). \<exists>name. a = newResAttr name"
proof (induction es "(ra, sps)" arbitrary: ra sps rule: batchOtherEntries.induct)
  case (3 key v es resAttrs spans)
  have "\<forall>a \<in> fst ` set (AList.update (newResAttr key) v resAttrs). \<exists>name. a = newResAttr name"
    using "3.prems" by (simp add: dom_update) blast
  from "3.hyps" [OF this] show ?case by simp
qed auto

lemma batchEntry_keys:
  "\<forall>a \<in> fst ` set ra. \<exists>name. a = newResAttr name \<Longrightarrow>
     \<forall>a \<in> fst ` set (fold batchEntry es ra). \<exists>name. a = newResAttr name"
proof (induction es arbitrary: ra)
  case Nil
  then show ?case by simp
next
  case (Cons e es)
  have "\<forall>a \<in> fst ` set (batchEntry e ra). \<exists>name. a = newResAttr name"
    using Cons.prems by (cases "kind (snd e)") (auto simp: batchEntry_def dom_update)
  from Cons.IH [OF this] show ?case by simp
qed

lemma batchResAttrs_keys:
  "map_of (batchResAttrs res) a = Some v \<Longrightarrow> \<exists>name. a = newResAttr name"
proof -
  assume "map_of (batchResAttrs res) a = Some v"
  then have "a \<in> fst ` set (batchResAttrs res)"
    by (metis map_of_SomeD fst_conv image_eqI)
  moreover have "\<forall>a \<in> fst ` set (batchResAttrs res). \<exists>name. a = newResAttr name"
    unfolding batchResAttrs_def
    by (rule batchEntry_keys, rule batchOtherEntries_keys) simp
  ultimately show ?thesis by blast
qed

lemma batchCollector_KeepGroup_Some:
  assumes "batchCollector_KeepGroup c res = Some res'"
  shows "\<exists>ss. res' = \<lparr>Entries = [], OtherEntries = [(''spanset'', SpansetValue ss)]\<rparr> \<and>
     (\<forall>sp \<in> set (Spans ss). \<exists>sp0 \<in> set (batchSpans res).
         sp = removeUnmatched (copyResAttrs (batchResAttrs res) sp0))"
proof -
  obtain ra sps where o: "batchOtherEntries (OtherEntries res) ([], []) = (ra, sps)"
    by (cases "batchOtherEntries (OtherEntries res) ([], [])")
  then have b: "batchResAttrs res = fold batchEntry (Entries res) ra" "batchSpans res = sps"
    by (simp_all add: batchResAttrs_def batchSpans_def)
  from assms o show ?thesis
    unfolding batchCollector_KeepGroup_def Let_def b
    by (auto split: if_splits)
qed


lemma spanKeys_update:
  "spanKeys a \<Longrightarrow> Scope k \<noteq> AttributeScopeResource \<Longrightarrow> spanKeys (AList.update k v a)"
  by (induction a) (auto simp: spanKeys_def)

lemma spanKeys_lookup: "spanKeys a \<Longrightarrow> map_of a (newResAttr name) = None"
proof (rule ccontr)
  assume a: "spanKeys a" and "map_of a (newResAttr name) \<noteq> None"
  then obtain v where "(newResAttr name, v) \<in> set a"
    by (auto dest: map_of_SomeD)
  with a show False
    by (auto simp: spanKeys_def list_all_iff newResAttr_def NewScopedAttribute_def)
qed

lemma spanOtherEntries_keys:
  "spanOtherEntries es a = Inr a' \<Longrightarrow> spanKeys a \<Longrightarrow> distinct (map fst a) \<Longrightarrow>
     spanKeys a' \<and> distinct (map fst a')"
proof (induction es a rule: spanOtherEntries.induct)
  case (2 key v es a)
  have "spanKeys (AList.update (newSpanAttr key) v a)"
    using "2.prems"(2) by (simp add: spanKeys_update newSpanAttr_def NewScopedAttribute_def)
  moreover have "distinct (map fst (AList.update (newSpanAttr key) v a))"
    using "2.prems"(3) by (simp add: distinct_update)
  ultimately show ?case using "2.IH" "2.prems"(1) by simp
qed auto

lemma spanEntry_keys:
  "spanKeys (Attributes sp) \<Longrightarrow> distinct (map fst (Attributes sp)) \<Longrightarrow>
     spanKeys (Attributes (spanEntry kv sp)) \<and> distinct (map fst (Attributes (spanEntry kv sp)))"
  by (cases "kind (snd kv)")
    (auto simp: spanEntry_def Let_def spanKeys_update distinct_update newSpanAttr_def
      NewIntrinsic_def NewScopedAttribute_def)

lemma fold_spanEntry_keys:
  "spanKeys (Attributes sp) \<Longrightarrow> distinct (map fst (Attributes sp)) \<Longrightarrow>
     spanKeys (Attributes (fold spanEntry es sp)) \<and>
     distinct (map fst (Attributes (fold spanEntry es sp)))"
  by (induction es arbitrary: sp) (auto simp: spanEntry_keys)

lemma spanDuration_keys:
  "spanKeys (Attributes sp) \<Longrightarrow> distinct (map fst (Attributes sp)) \<Longrightarrow>
     spanKeys (Attributes (spanDuration fs sp)) \<and>
     distinct (map fst (Attributes (spanDuration fs sp)))"
  by (auto simp: spanDuration_def Let_def spanKeys_update distinct_update NewIntrinsic_def)

lemma spanDuration_times:
  "Span.StartTimeUnixNanos (spanDuration fs sp) = Span.StartTimeUnixNanos sp"
  "EndtimeUnixNanos (spanDuration fs sp) = EndtimeUnixNanos sp"
  by (simp_all add: spanDuration_def Let_def)

lemma spanEntry_Start:
  "Span.StartTimeUnixNanos (spanEntry (k, v) sp) =
     (if k = columnPathSpanStartTime then Value_Uint64 v else Span.StartTimeUnixNanos sp)"
  by (cases "kind v") (auto simp: spanEntry_def Let_def columnPath_defs)

lemma spanEntry_End:
  "EndtimeUnixNanos (spanEntry (k, v) sp) =
     (if k = columnPathSpanEndTime then Value_Uint64 v else EndtimeUnixNanos sp)"
  by (cases "kind v") (auto simp: spanEntry_def Let_def columnPath_defs)

lemma fold_spanEntry_Start:
  "Q (Span.StartTimeUnixNanos sp) \<Longrightarrow>
   \<forall>v. (columnPathSpanStartTime, v) \<in> set es \<longrightarrow> Q (Value_Uint64 v) \<Longrightarrow>
   Q (Span.StartTimeUnixNanos (fold spanEntry es sp))"
proof (induction es arbitrary: sp)
  case Nil
  then show ?case by simp
next
  case (Cons e es)
  obtain k v where e: "e = (k, v)" by (cases e)
  have "Q (Span.StartTimeUnixNanos (spanEntry e sp))"
    using Cons.prems by (simp add: e spanEntry_Start)
  moreover have "\<forall>v. (columnPathSpanStartTime, v) \<in> set es \<longrightarrow> Q (Value_Uint64 v)"
    using Cons.prems(2) by simp
  ultimately show ?case using Cons.IH by simp
qed

lemma fold_spanEntry_End:
  "Q (EndtimeUnixNanos sp) \<or> (\<exists>v. (columnPathSpanEndTime, v) \<in> set es) \<Longrightarrow>
   \<forall>v. (columnPathSpanEndTime, v) \<in> set es \<longrightarrow> Q (Value_Uint64 v) \<Longrightarrow>
   Q (EndtimeUnixNanos (fold spanEntry es sp))"
proof (induction es arbitrary: sp)
  case Nil
  then show ?case by simp
next
  case (Cons e es)
  obtain k v where e: "e = (k, v)" by (cases e)
  have "Q (EndtimeUnixNanos (spanEntry e sp)) \<or> (\<exists>v. (columnPathSpanEndTime, v) \<in> set es)"
    using Cons.prems by (auto simp: e spanEntry_End)
  moreover have "\<forall>v. (columnPathSpanEndTime, v) \<in> set es \<longrightarrow> Q (Value_Uint64 v)"
    using Cons.prems(2) by simp
  ultimately show ?case using Cons.IH by simp
qed

lemma spanCollector_KeepGroup_Some:
  assumes "spanCollector_KeepGroup c res = Inr (Some res')"
  shows "\<exists>a sp. spanOtherEntries (OtherEntries res) [] = Inr a \<and>
     sp = spanDuration (durationFilters c)
            (fold spanEntry (Entries res)
               \<lparr>ID = [], Span.StartTimeUnixNanos = 0, EndtimeUnixNanos = 0, Attributes = a\<rparr>) \<and>
     res' = \<lparr>Entries = [], OtherEntries = [(''span'', SpanValue sp)]\<rparr> \<and>
     spanCollector.minAttributes c \<le> nonNilCount (Attributes sp) \<and>
     spanKeys (Attributes sp) \<and> distinct (map fst (Attributes sp))"
proof -
  from assms obtain a where a: "spanOtherEntries (OtherEntries res) [] = Inr a"
    by (auto simp: spanCollector_KeepGroup_def split: sum.splits)
  let ?sp = "spanDuration (durationFilters c)
            (fold spanEntry (Entries res)
               \<lparr>ID = [], Span.StartTimeUnixNanos = 0, EndtimeUnixNanos = 0, Attributes = a\<rparr>)"
  from assms a have r: "res' = \<lparr>Entries = [], OtherEntries = [(''span'', SpanValue ?sp)]\<rparr>"
    and m: "spanCollector.minAttributes c \<le> nonNilCount (Attributes ?sp)"
    by (auto simp: spanCollector_KeepGroup_def Let_def split: if_splits)
  from spanOtherEntries_keys [OF a] have "spanKeys a \<and> distinct (map fst a)"
    by (simp add: spanKeys_def)
  then have "spanKeys (Attributes ?sp) \<and> distinct (map fst (Attributes ?sp))"
    by (intro spanDuration_keys) (simp_all add: fold_spanEntry_keys)
  with a r m show ?thesis by blast
qed


lemma batch_resource_attribute:
  assumes "spanKeys (Attributes sp0)"
    and "map_of (batchResAttrs res) (newResAttr name) = Some v"
  shows "map_of (Attributes (copyResAttrs (batchResAttrs res) sp0)) (newResAttr name) = Some v"
    and "Type v \<noteq> TypeNil \<Longrightarrow>
         map_of (Attributes (removeUnmatched (copyResAttrs (batchResAttrs res) sp0)))
           (newResAttr name) = Some v"
proof -
  show c: "map_of (Attributes (copyResAttrs (batchResAttrs res) sp0)) (newResAttr name) = Some v"
    using assms by (simp add: copyResAttrs_map_of map_add_def spanKeys_lookup)
  show "map_of (Attributes (removeUnmatched (copyResAttrs (batchResAttrs res) sp0)))
           (newResAttr name) = Some v" if "Type v \<noteq> TypeNil"
    using c that by (rule removeUnmatched_keeps)
qed

text \<open>
  C4.  For every batch that the batch collector keeps, whose spans come from the span
  collector: every returned span is a span of the group after the copy of the resource
  attributes and the removal of the nil attributes.  Every resource attribute collected
  for the batch is on the span after the copy, under its resource-scoped key and with the
  value of the batch, unless the span carries an attribute of that name at span scope;
  if its type is not nil, it is on the returned span.  No attribute of a returned span
  has type nil.  (The lemma \<open>batch_resource_attribute\<close> shows that the exception is never
  needed: the key of a resource attribute has resource scope, the keys that the span
  collector writes have span scope or none, so the copy always takes place.)
\<close>

theorem batchCollector_propagates:
  assumes "batchCollector_KeepGroup c res = Some res'"
    and "\<forall>sp0 \<in> set (batchSpans res). \<exists>c0 r0.
           spanCollector_KeepGroup c0 r0 =
             Inr (Some \<lparr>Entries = [], OtherEntries = [(''span'', SpanValue sp0)]\<rparr>)"
  shows "\<exists>ss. res' = \<lparr>Entries = [], OtherEntries = [(''spanset'', SpansetValue ss)]\<rparr> \<and>
     (\<forall>sp \<in> set (Spans ss).
        (\<exists>sp0 \<in> set (batchSpans res).
           sp = removeUnmatched (copyResAttrs (batchResAttrs res) sp0) \<and>
           (\<forall>name v. map_of (batchResAttrs res) (newResAttr name) = Some v \<longrightarrow>
              map_of (Attributes sp0) (newSpanAttr name) \<noteq> None \<or>
              map_of (Attributes (copyResAttrs (batchResAttrs res) sp0)) (newResAttr name) = Some v \<and>
              (Type v \<noteq> TypeNil \<longrightarrow> map_of (Attributes sp) (newResAttr name) = Some v))) \<and>
        (\<forall>a v. map_of (Attributes sp) a = Some v \<longrightarrow> Type v \<noteq> TypeNil))"
proof -
  from batchCollector_KeepGroup_Some [OF assms(1)] obtain ss
    where r: "res' = \<lparr>Entries = [], OtherEntries = [(''spanset'', SpansetValue ss)]\<rparr>"
      and s: "\<forall>sp \<in> set (Spans ss). \<exists>sp0 \<in> set (batchSpans res).
                sp = removeUnmatched (copyResAttrs (batchResAttrs res) sp0)"
    by blast
  have "(\<exists>sp0 \<in> set (batchSpans res).
           sp = removeUnmatched (copyResAttrs (batchResAttrs res) sp0) \<and>
           (\<forall>name v. map_of (batchResAttrs res) (newResAttr name) = Some v \<longrightarrow>
              map_of (Attributes sp0) (newSpanAttr name) \<noteq> None \<or>
              map_of (Attributes (copyResAttrs (batchResAttrs res) sp0)) (newResAttr name) = Some v \<and>
              (Type v \<noteq> TypeNil \<longrightarrow> map_of (Attributes sp) (newResAttr name) = Some v))) \<and>
        (\<forall>a v. map_of (Attributes sp) a = Some v \<longrightarrow> Type v \<noteq> TypeNil)"
    if sp: "sp \<in> set (Spans ss)" for sp
  proof -
    from s sp obtain sp0 where sp0: "sp0 \<in> set (batchSpans res)"
      and eq: "sp = removeUnmatched (copyResAttrs (batchResAttrs res) sp0)"
      by blast
    from assms(2) sp0 obtain c0 r0 where
      "spanCollector_KeepGroup c0 r0 =
         Inr (Some \<lparr>Entries = [], OtherEntries = [(''span'', SpanValue sp0)]\<rparr>)"
      by blast
    from spanCollector_KeepGroup_Some [OF this] have keys: "spanKeys (Attributes sp0)"
      by auto
    have "\<forall>name v. map_of (batchResAttrs res) (newResAttr name) = Some v \<longrightarrow>
              map_of (Attributes sp0) (newSpanAttr name) \<noteq> None \<or>
              map_of (Attributes (copyResAttrs (batchResAttrs res) sp0)) (newResAttr name) = Some v \<and>
              (Type v \<noteq> TypeNil \<longrightarrow> map_of (Attributes sp) (newResAttr name) = Some v)"
      using batch_resource_attribute [OF keys] eq by blast
    moreover have "\<forall>a v. map_of (Attributes sp) a = Some v \<longrightarrow> Type v \<noteq> TypeNil"
      using removeUnmatched_no_nil eq by blast
    ultimately show ?thesis using sp0 eq by blast
  qed
  with r show ?thesis by blast
qed

lemma batchCollector_nonNilCount:
  assumes "batchCollector_KeepGroup c res = Some res'"
    and "\<forall>sp0 \<in> set (batchSpans res). n \<le> nonNilCount (Attributes sp0)"
  shows "\<exists>ss. res' = \<lparr>Entries = [], OtherEntries = [(''spanset'', SpansetValue ss)]\<rparr> \<and>
     (\<forall>sp \<in> set (Spans ss). n \<le> nonNilCount (Attributes sp))"
proof -
  from batchCollector_KeepGroup_Some [OF assms(1)] obtain ss
    where r: "res' = \<lparr>Entries = [], OtherEntries = [(''spanset'', SpansetValue ss)]\<rparr>"
      and s: "\<forall>sp \<in> set (Spans ss). \<exists>sp0 \<in> set (batchSpans res).
                sp = removeUnmatched (copyResAttrs (batchResAttrs res) sp0)"
    by blast
  have "n \<le> nonNilCount (Attributes sp)" if "sp \<in> set (Spans ss)" for sp
  proof -
    from s that obtain sp0 where sp0: "sp0 \<in> set (batchSpans res)"
      and eq: "sp = removeUnmatched (copyResAttrs (batchResAttrs res) sp0)"
      by blast
    have "n \<le> nonNilCount (Attributes sp0)" using assms(2) sp0 by blast
    also have "\<dots> \<le> nonNilCount (Attributes (copyResAttrs (batchResAttrs res) sp0))"
      by (rule copyResAttrs_nonNilCount)
    finally show ?thesis by (simp add: eq removeUnmatched_nonNilCount)
  qed
  with r show ?thesis by blast
qed

lemma fold_traceEntry_Spans: "Spans (fold traceEntry es fs) = Spans fs"
  by (induction es arbitrary: fs) (auto simp: traceEntry_def)

lemma traceOtherEntry_Spans:
  "set (Spans (traceOtherEntry (k, x) fs)) =
     set (Spans fs) \<union> {sp. \<exists>ss. x = SpansetValue ss \<and> sp \<in> set (Spans ss)}"
  by (cases x) (auto simp: traceOtherEntry_def)

lemma fold_traceOtherEntry_Spans:
  "set (Spans (fold traceOtherEntry es fs)) =
     set (Spans fs) \<union> {sp. \<exists>k ss. (k, SpansetValue ss) \<in> set es \<and> sp \<in> set (Spans ss)}"
proof (induction es arbitrary: fs)
  case Nil
  show ?case by simp
next
  case (Cons e es)
  obtain k x where e: "e = (k, x)" by (cases e)
  show ?case
    unfolding e fold_Cons comp_apply Cons.IH traceOtherEntry_Spans
    by auto
qed

lemma traceCollector_KeepGroup_Spans:
  assumes "traceCollector_KeepGroup res = Some res'"
  shows "\<exists>fs. res' = \<lparr>Entries = [], OtherEntries = [(''spanset'', SpansetValue fs)]\<rparr> \<and>
     set (Spans fs) = {sp. \<exists>k ss. (k, SpansetValue ss) \<in> set (OtherEntries res) \<and> sp \<in> set (Spans ss)}"
  using assms
  by (auto simp: traceCollector_KeepGroup_def Let_def fold_traceOtherEntry_Spans
      fold_traceEntry_Spans)

lemma nonNilCount_card:
  "distinct (map fst a) \<Longrightarrow>
     nonNilCount a = card {k. \<exists>v. map_of a k = Some v \<and> Type v \<noteq> TypeNil}"
proof (induction a)
  case Nil
  show ?case by (simp add: nonNilCount_def)
next
  case (Cons kv a)
  obtain k v where kv: "kv = (k, v)" by (cases kv)
  from Cons.prems have k: "k \<notin> fst ` set a" and d: "distinct (map fst a)"
    by (simp_all add: kv)
  from k have none: "map_of a k = None"
    by (simp add: map_of_eq_None_iff)
  let ?S = "{x. \<exists>w. map_of a x = Some w \<and> Type w \<noteq> TypeNil}"
  have fin: "finite ?S"
    by (rule finite_subset [of _ "dom (map_of a)"]) (auto simp: finite_dom_map_of)
  have notin: "k \<notin> ?S" using none by simp
  have c: "card (insert k ?S) = Suc (card ?S)"
    by (rule card_insert_disjoint [OF fin notin])
  note IH = Cons.IH [OF d]
  show ?case
  proof (cases "Type v = TypeNil")
    case True
    have "{x. \<exists>w. map_of (kv # a) x = Some w \<and> Type w \<noteq> TypeNil} = ?S"
      using none True by (auto simp: kv)
    moreover have "nonNilCount (kv # a) = nonNilCount a"
      using True by (simp add: nonNilCount_def kv)
    ultimately show ?thesis using IH by (simp only:)
  next
    case False
    have "{x. \<exists>w. map_of (kv # a) x = Some w \<and> Type w \<noteq> TypeNil} = insert k ?S"
      using none False by (auto simp: kv)
    moreover have "nonNilCount (kv # a) = Suc (nonNilCount a)"
      using False by (simp add: nonNilCount_def kv)
    ultimately show ?thesis using IH c by (simp only:)
  qed
qed


theorem batchCollector_propagates_witness:
  "batchCollector_KeepGroup \<lparr>requireAtLeastOneMatchOverall = True, batchCollector.minAttributes = 0\<rparr>
     \<lparr>Entries = [],
      OtherEntries =
        [(''span'', SpanValue \<lparr>ID = [], Span.StartTimeUnixNanos = 0, EndtimeUnixNanos = 0,
                     Attributes = [(newSpanAttr ''x'', NewStaticInt 1)]\<rparr>),
         (''foo'', StaticValue (NewStaticString ''bar'')),
         (''baz'', StaticValue StaticNil)]\<rparr>
   = Some \<lparr>Entries = [],
           OtherEntries =
             [(''spanset'',
               SpansetValue \<lparr>TraceID = [], Spanset.StartTimeUnixNanos = 0, DurationNanos = 0,
                 RootSpanName = [], RootServiceName = [],
                 Spans = [\<lparr>ID = [], Span.StartTimeUnixNanos = 0, EndtimeUnixNanos = 0,
                           Attributes = [(newSpanAttr ''x'', NewStaticInt 1),
                                         (newResAttr ''foo'', NewStaticString ''bar'')]\<rparr>]\<rparr>)]\<rparr>
   \<and> map_of [(newSpanAttr ''x'', NewStaticInt 1), (newResAttr ''foo'', NewStaticString ''bar'')]
        (newResAttr ''foo'') = Some (NewStaticString ''bar'')"
proof -
  let ?span = "\<lparr>ID = [], Span.StartTimeUnixNanos = 0, EndtimeUnixNanos = 0,
                Attributes = [(newSpanAttr ''x'', NewStaticInt 1)]\<rparr>"
  let ?res = "\<lparr>Entries = [],
      OtherEntries =
        [(''span'', SpanValue ?span),
         (''foo'', StaticValue (NewStaticString ''bar'')),
         (''baz'', StaticValue StaticNil)]\<rparr>"
  let ?sp = "\<lparr>ID = [], Span.StartTimeUnixNanos = 0, EndtimeUnixNanos = 0,
               Attributes = [(newSpanAttr ''x'', NewStaticInt 1),
                             (newResAttr ''foo'', NewStaticString ''bar'')]\<rparr>"
  let ?ss = "\<lparr>TraceID = [], Spanset.StartTimeUnixNanos = 0, DurationNanos = 0,
                 RootSpanName = [], RootServiceName = [], Spans = [?sp]\<rparr>"
  have h1: "batchCollector_KeepGroup
      \<lparr>requireAtLeastOneMatchOverall = True, batchCollector.minAttributes = 0\<rparr> ?res
    = Some \<lparr>Entries = [], OtherEntries = [(''spanset'', SpansetValue ?ss)]\<rparr>"
    by (simp add: batchCollector_KeepGroup_def copyResAttrs_def removeUnmatched_def
        newResAttr_def newSpanAttr_def NewScopedAttribute_def NewStaticString_def
        NewStaticInt_def StaticNil_def)
  have sc: "spanCollector_KeepGroup \<lparr>spanCollector.minAttributes = 0, durationFilters = []\<rparr>
      \<lparr>Entries = [], OtherEntries = [(''x'', StaticValue (NewStaticInt 1))]\<rparr>
    = Inr (Some \<lparr>Entries = [], OtherEntries = [(''span'', SpanValue ?span)]\<rparr>)"
    by (simp add: spanCollector_KeepGroup_def spanDuration_def)
  have h2: "\<forall>sp0 \<in> set (batchSpans ?res). \<exists>c0 r0.
           spanCollector_KeepGroup c0 r0 =
             Inr (Some \<lparr>Entries = [], OtherEntries = [(''span'', SpanValue sp0)]\<rparr>)"
    using sc by (auto simp: batchSpans_def)
  have ra: "map_of (batchResAttrs ?res) (newResAttr ''foo'') = Some (NewStaticString ''bar'')"
    by (simp add: batchResAttrs_def newResAttr_def NewScopedAttribute_def)
  have nn: "Type (NewStaticString ''bar'') \<noteq> TypeNil"
    by (simp add: NewStaticString_def StaticNil_def)
  have nx: "map_of (Attributes ?span) (newSpanAttr ''foo'') = None"
    by (simp add: newSpanAttr_def NewScopedAttribute_def)
  from batchCollector_propagates [OF h1 h2] obtain sp0 where
    "sp0 \<in> set (batchSpans ?res)"
    and "\<forall>name v. map_of (batchResAttrs ?res) (newResAttr name) = Some v \<longrightarrow>
              map_of (Attributes sp0) (newSpanAttr name) \<noteq> None \<or>
              map_of (Attributes (copyResAttrs (batchResAttrs ?res) sp0)) (newResAttr name) = Some v \<and>
              (Type v \<noteq> TypeNil \<longrightarrow> map_of (Attributes ?sp) (newResAttr name) = Some v)"
    by auto
  moreover from this(1) have "sp0 = ?span"
    by (simp add: batchSpans_def)
  ultimately have "map_of (Attributes ?sp) (newResAttr ''foo'') = Some (NewStaticString ''bar'')"
    using ra nn nx by blast
  with h1 show ?thesis by simp
qed

subsection \<open>The span iterator\<close>

lemma nonneg_sint_uint: "0 \<le> sint (x::int64) \<Longrightarrow> uint x = sint x"
proof -
  assume "0 \<le> sint x"
  moreover have "sint x < 2 ^ 64"
    using sint_lt [of x] by simp
  ultimately have "take_bit 64 (sint x) = sint x"
    by (simp add: take_bit_int_eq_self)
  then show ?thesis using uint_sint [of x] by simp
qed

lemma sle_unsigned: "0 \<le> sint (x::int64) \<Longrightarrow> x \<le>s y \<Longrightarrow> x \<le> y"
proof -
  assume a: "0 \<le> sint x" "x \<le>s y"
  then have le: "sint x \<le> sint y" by (simp add: word_sle_eq)
  with a(1) have "0 \<le> sint y" by simp
  with a(1) have "uint x = sint x" "uint y = sint y" by (simp_all add: nonneg_sint_uint)
  with le show ?thesis by (simp add: word_le_def)
qed

lemma le_MaxInt64_nonneg: "(s::int64) \<le> MaxInt64 \<Longrightarrow> 0 \<le> sint s"
proof -
  assume "s \<le> MaxInt64"
  then have "uint s \<le> 9223372036854775807" by (simp add: word_le_def MaxInt64_def)
  moreover have "- (2 ^ 63) \<le> uint s"
    by (rule order_trans [of _ 0]) simp_all
  ultimately have "signed_take_bit 63 (uint s) = uint s"
    by (intro signed_take_bit_int_eq_self) simp_all
  then have "sint s = uint s" using sint_uint [of s] by simp
  then show ?thesis by simp
qed


lemma createSpanIterator_Inr:
  assumes "createSpanIterator makeIter rx conditions start end' req allc = Inr it"
  shows "\<exists>iters durs required optional.
     createSpanColumnIterators makeIter rx conditions False = Inr (iters, durs) \<and>
     it = LeftJoinIterator DefinitionLevelResourceSpansILSSpan
            (required @
               [makeIter columnPathSpanStartTime
                  (if 0 < start \<and> 0 < end' then Some (IntBetweenPredicate 0 end') else None)
                  columnPathSpanStartTime,
                makeIter columnPathSpanEndTime
                  (if 0 < start \<and> 0 < end' then Some (IntBetweenPredicate start MaxInt64) else None)
                  columnPathSpanEndTime,
                makeIter columnPathSpanID None columnPathSpanID])
            optional
            (Some (SpanCollector
               \<lparr>spanCollector.minAttributes =
                  (if allc then distinctNames conditions else if req then 1 else 0),
                durationFilters = durs\<rparr>))"
proof -
  from assms obtain iters durs where
    c: "createSpanColumnIterators makeIter rx conditions False = Inr (iters, durs)"
    by (auto simp: createSpanIterator_def split: sum.splits)
  from assms show ?thesis
    unfolding createSpanIterator_def c Let_def
    by (auto split: if_splits)
qed

lemma distinctNames_card:
  "distinctNames conditions = card ((\<lambda>cond. Name (Attribute cond)) ` set conditions)"
  by (simp add: distinctNames_def length_remdups_card_conv)

text \<open>
  C3.  The minimum-match count of the span collector that \<open>createSpanIterator\<close> builds is
  the number of distinct attribute names of the span conditions when \<open>allConditions\<close> is
  set, otherwise 1 when \<open>requireAtLeastOneMatch\<close> is set, otherwise 0.  Every span that this
  collector keeps has at least that many attributes whose type is not nil (the count is
  the number of keys of the attribute map with such a value).  The bound survives the
  batch collector, which only adds attributes and removes nil ones, and the trace
  collector, which concatenates the spans of the batches: every span they return has at
  least that many attributes whose type is not nil.
\<close>

theorem createSpanIterator_minCount:
  assumes "createSpanIterator makeIter rx conditions start end' requireAtLeastOneMatch allConditions
             = Inr it"
  shows "\<exists>required optional c.
     it = LeftJoinIterator DefinitionLevelResourceSpansILSSpan required optional
            (Some (SpanCollector c)) \<and>
     spanCollector.minAttributes c =
       (if allConditions then card ((\<lambda>cond. Name (Attribute cond)) ` set conditions)
        else if requireAtLeastOneMatch then 1 else 0) \<and>
     (\<forall>res sp.
        spanCollector_KeepGroup c res =
          Inr (Some \<lparr>Entries = [], OtherEntries = [(''span'', SpanValue sp)]\<rparr>) \<longrightarrow>
        spanCollector.minAttributes c \<le> nonNilCount (Attributes sp) \<and>
        nonNilCount (Attributes sp) =
          card {k. \<exists>v. map_of (Attributes sp) k = Some v \<and> Type v \<noteq> TypeNil}) \<and>
     (\<forall>bc res ss.
        (\<forall>sp0 \<in> set (batchSpans res).
           spanCollector.minAttributes c \<le> nonNilCount (Attributes sp0)) \<and>
        batchCollector_KeepGroup bc res =
          Some \<lparr>Entries = [], OtherEntries = [(''spanset'', SpansetValue ss)]\<rparr> \<longrightarrow>
        (\<forall>sp \<in> set (Spans ss). spanCollector.minAttributes c \<le> nonNilCount (Attributes sp))) \<and>
     (\<forall>res fs.
        (\<forall>k ss. (k, SpansetValue ss) \<in> set (OtherEntries res) \<longrightarrow>
           (\<forall>sp \<in> set (Spans ss). spanCollector.minAttributes c \<le> nonNilCount (Attributes sp))) \<and>
        traceCollector_KeepGroup res =
          Some \<lparr>Entries = [], OtherEntries = [(''spanset'', SpansetValue fs)]\<rparr> \<longrightarrow>
        (\<forall>sp \<in> set (Spans fs). spanCollector.minAttributes c \<le> nonNilCount (Attributes sp)))"
proof -
  from createSpanIterator_Inr [OF assms] obtain durs required optional where
    it: "it = LeftJoinIterator DefinitionLevelResourceSpansILSSpan required optional
            (Some (SpanCollector
               \<lparr>spanCollector.minAttributes =
                  (if allConditions then distinctNames conditions
                   else if requireAtLeastOneMatch then 1 else 0),
                durationFilters = durs\<rparr>))"
    by blast
  let ?c = "\<lparr>spanCollector.minAttributes =
                  (if allConditions then distinctNames conditions
                   else if requireAtLeastOneMatch then 1 else 0),
                durationFilters = durs\<rparr>"
  let ?n = "spanCollector.minAttributes ?c"
  have m: "?n = (if allConditions then card ((\<lambda>cond. Name (Attribute cond)) ` set conditions)
        else if requireAtLeastOneMatch then 1 else 0)"
    by (simp add: distinctNames_card)
  have s: "\<forall>res sp.
        spanCollector_KeepGroup ?c res =
          Inr (Some \<lparr>Entries = [], OtherEntries = [(''span'', SpanValue sp)]\<rparr>) \<longrightarrow>
        ?n \<le> nonNilCount (Attributes sp) \<and>
        nonNilCount (Attributes sp) =
          card {k. \<exists>v. map_of (Attributes sp) k = Some v \<and> Type v \<noteq> TypeNil}"
  proof (intro allI impI)
    fix res sp
    assume "spanCollector_KeepGroup ?c res =
          Inr (Some \<lparr>Entries = [], OtherEntries = [(''span'', SpanValue sp)]\<rparr>)"
    from spanCollector_KeepGroup_Some [OF this]
    have "?n \<le> nonNilCount (Attributes sp)" "distinct (map fst (Attributes sp))"
      by auto
    then show "?n \<le> nonNilCount (Attributes sp) \<and>
        nonNilCount (Attributes sp) =
          card {k. \<exists>v. map_of (Attributes sp) k = Some v \<and> Type v \<noteq> TypeNil}"
      using nonNilCount_card by blast
  qed
  have b: "\<forall>bc res ss.
        (\<forall>sp0 \<in> set (batchSpans res). ?n \<le> nonNilCount (Attributes sp0)) \<and>
        batchCollector_KeepGroup bc res =
          Some \<lparr>Entries = [], OtherEntries = [(''spanset'', SpansetValue ss)]\<rparr> \<longrightarrow>
        (\<forall>sp \<in> set (Spans ss). ?n \<le> nonNilCount (Attributes sp))"
  proof (intro allI impI)
    fix bc res ss
    assume a: "(\<forall>sp0 \<in> set (batchSpans res). ?n \<le> nonNilCount (Attributes sp0)) \<and>
        batchCollector_KeepGroup bc res =
          Some \<lparr>Entries = [], OtherEntries = [(''spanset'', SpansetValue ss)]\<rparr>"
    from batchCollector_nonNilCount [OF conjunct2 [OF a] conjunct1 [OF a]]
    show "\<forall>sp \<in> set (Spans ss). ?n \<le> nonNilCount (Attributes sp)"
      by auto
  qed
  have t: "\<forall>res fs.
        (\<forall>k ss. (k, SpansetValue ss) \<in> set (OtherEntries res) \<longrightarrow>
           (\<forall>sp \<in> set (Spans ss). ?n \<le> nonNilCount (Attributes sp))) \<and>
        traceCollector_KeepGroup res =
          Some \<lparr>Entries = [], OtherEntries = [(''spanset'', SpansetValue fs)]\<rparr> \<longrightarrow>
        (\<forall>sp \<in> set (Spans fs). ?n \<le> nonNilCount (Attributes sp))"
  proof (intro allI impI)
    fix res fs
    assume a: "(\<forall>k ss. (k, SpansetValue ss) \<in> set (OtherEntries res) \<longrightarrow>
           (\<forall>sp \<in> set (Spans ss). ?n \<le> nonNilCount (Attributes sp))) \<and>
        traceCollector_KeepGroup res =
          Some \<lparr>Entries = [], OtherEntries = [(''spanset'', SpansetValue fs)]\<rparr>"
    from traceCollector_KeepGroup_Spans [OF conjunct2 [OF a]]
    have "set (Spans fs) =
        {sp. \<exists>k ss. (k, SpansetValue ss) \<in> set (OtherEntries res) \<and> sp \<in> set (Spans ss)}"
      by auto
    with conjunct1 [OF a] show "\<forall>sp \<in> set (Spans fs). ?n \<le> nonNilCount (Attributes sp)"
      by blast
  qed
  from it m s b t show ?thesis by blast
qed

theorem createSpanIterator_minCount_witness:
  "createSpanIterator (makeIterFunc [0::nat]) (\<lambda>s. None)
     [\<lparr>Attribute = NewIntrinsic IntrinsicName, Op = OpEqual, Operands = [NewStaticString ''db'']\<rparr>,
      \<lparr>Attribute = NewIntrinsic IntrinsicName, Op = OpEqual, Operands = [NewStaticString ''db'']\<rparr>]
     0 0 True True
   = Inr (LeftJoinIterator DefinitionLevelResourceSpansILSSpan
       [ColumnIterator [0] columnPathSpanName
          (Some (OrPredicate [Some (StringInPredicate [''db'']), Some (StringInPredicate [''db''])]))
          columnPathSpanName,
        ColumnIterator [0] columnPathSpanStartTime None columnPathSpanStartTime,
        ColumnIterator [0] columnPathSpanEndTime None columnPathSpanEndTime,
        ColumnIterator [0] columnPathSpanID None columnPathSpanID]
       []
       (Some (SpanCollector \<lparr>spanCollector.minAttributes = 1, durationFilters = []\<rparr>)))
   \<and> spanCollector_KeepGroup \<lparr>spanCollector.minAttributes = 1, durationFilters = []\<rparr>
       \<lparr>Entries = [(columnPathSpanName, \<lparr>kind = ByteArray, u64 = 0, byteArray = ''db''\<rparr>)],
        OtherEntries = []\<rparr>
     = Inr (Some \<lparr>Entries = [],
          OtherEntries = [(''span'', SpanValue \<lparr>ID = [], Span.StartTimeUnixNanos = 0,
             EndtimeUnixNanos = 0,
             Attributes = [(NewIntrinsic IntrinsicName, NewStaticString ''db'')]\<rparr>)]\<rparr>)
   \<and> (1::nat) \<le> nonNilCount [(NewIntrinsic IntrinsicName, NewStaticString ''db'')]"
proof -
  let ?conds = "[\<lparr>Attribute = NewIntrinsic IntrinsicName, Op = OpEqual,
                   Operands = [NewStaticString ''db'']\<rparr>,
                 \<lparr>Attribute = NewIntrinsic IntrinsicName, Op = OpEqual,
                   Operands = [NewStaticString ''db'']\<rparr>]"
  let ?c = "\<lparr>spanCollector.minAttributes = 1, durationFilters = []\<rparr>"
  let ?it = "LeftJoinIterator DefinitionLevelResourceSpansILSSpan
       [ColumnIterator [0::nat] columnPathSpanName
          (Some (OrPredicate [Some (StringInPredicate [''db'']), Some (StringInPredicate [''db''])]))
          columnPathSpanName,
        ColumnIterator [0] columnPathSpanStartTime None columnPathSpanStartTime,
        ColumnIterator [0] columnPathSpanEndTime None columnPathSpanEndTime,
        ColumnIterator [0] columnPathSpanID None columnPathSpanID]
       []
       (Some (SpanCollector ?c))"
  let ?span = "\<lparr>ID = [], Span.StartTimeUnixNanos = 0, EndtimeUnixNanos = 0,
             Attributes = [(NewIntrinsic IntrinsicName, NewStaticString ''db'')]\<rparr>"
  have h: "createSpanIterator (makeIterFunc [0::nat]) (\<lambda>s. None) ?conds 0 0 True True = Inr ?it"
    by (simp add: createSpanIterator_def createSpanColumnIterators_def NewIntrinsic_def
        createStringPredicate_def NewStaticString_def StaticNil_def createAttributeIterator_def
        columnIterators_def addPredicate_def selectAsOf_def makeIterFunc_def NewOrPredicate_def
        distinctNames_def)
  have k: "spanCollector_KeepGroup ?c
       \<lparr>Entries = [(columnPathSpanName, \<lparr>kind = ByteArray, u64 = 0, byteArray = ''db''\<rparr>)],
        OtherEntries = []\<rparr>
     = Inr (Some \<lparr>Entries = [], OtherEntries = [(''span'', SpanValue ?span)]\<rparr>)"
    by (simp add: spanCollector_KeepGroup_def spanEntry_def spanDuration_def nonNilCount_def
        columnPath_defs Value_String_def NewStaticString_def StaticNil_def)
  from createSpanIterator_minCount [OF h] obtain required optional c where
    eq: "?it = LeftJoinIterator DefinitionLevelResourceSpansILSSpan required optional
            (Some (SpanCollector c))"
    and P: "\<forall>res sp.
        spanCollector_KeepGroup c res =
          Inr (Some \<lparr>Entries = [], OtherEntries = [(''span'', SpanValue sp)]\<rparr>) \<longrightarrow>
        spanCollector.minAttributes c \<le> nonNilCount (Attributes sp) \<and>
        nonNilCount (Attributes sp) =
          card {k. \<exists>v. map_of (Attributes sp) k = Some v \<and> Type v \<noteq> TypeNil}"
    by blast
  from eq have c: "c = ?c" by simp
  from P k have "spanCollector.minAttributes ?c \<le> nonNilCount (Attributes ?span)"
    unfolding c by blast
  then have "(1::nat) \<le> nonNilCount [(NewIntrinsic IntrinsicName, NewStaticString ''db'')]"
    by simp
  with h k show ?thesis by (intro conjI)
qed

lemma requiredKept_D:
  assumes "requiredKept required res"
    and "ColumnIterator rgs path (Some (IntBetweenPredicate lo hi)) selectAs \<in> set required"
  shows "(\<exists>v. (selectAs, v) \<in> set (Entries res)) \<and>
         (\<forall>v. (selectAs, v) \<in> set (Entries res) \<longrightarrow> lo \<le>s u64 v \<and> u64 v \<le>s hi)"
proof -
  from assms have "columnKept (ColumnIterator rgs path (Some (IntBetweenPredicate lo hi)) selectAs)
      (Entries res)"
    unfolding requiredKept_def list_all_iff by blast
  then show ?thesis
    by (force simp: list_ex_iff list_all_iff IntBetweenPredicate_KeepValue_def Value_Int64_def)
qed

text \<open>
  The time window within the range of \<open>int64\<close>.  When both bounds of the request are
  positive and the start bound is at most \<open>MaxInt64\<close>, every span that the span collector
  builds from a group of the left join starts no later than the end bound and ends no
  earlier than the start bound, as the comment in \<open>createSpanIterator\<close> says.
\<close>

lemma createSpanIterator_time_window:
  assumes "createSpanIterator (makeIterFunc rgs) rx conditions start end' requireAtLeastOneMatch
             allConditions = Inr it"
    and "0 < start" and "0 < end'" and "start \<le> MaxInt64"
  shows "\<exists>required optional c.
     it = LeftJoinIterator DefinitionLevelResourceSpansILSSpan required optional
            (Some (SpanCollector c)) \<and>
     ColumnIterator rgs columnPathSpanStartTime (Some (IntBetweenPredicate 0 end'))
       columnPathSpanStartTime \<in> set required \<and>
     ColumnIterator rgs columnPathSpanEndTime (Some (IntBetweenPredicate start MaxInt64))
       columnPathSpanEndTime \<in> set required \<and>
     (\<forall>res sp.
        requiredKept required res \<and>
        spanCollector_KeepGroup c res =
          Inr (Some \<lparr>Entries = [], OtherEntries = [(''span'', SpanValue sp)]\<rparr>) \<longrightarrow>
        Span.StartTimeUnixNanos sp \<le> end' \<and> start \<le> EndtimeUnixNanos sp)"
proof -
  from createSpanIterator_Inr [OF assms(1)] assms(2,3) obtain durs required0 optional n where
    it: "it = LeftJoinIterator DefinitionLevelResourceSpansILSSpan
            (required0 @
               [ColumnIterator rgs columnPathSpanStartTime (Some (IntBetweenPredicate 0 end'))
                  columnPathSpanStartTime,
                ColumnIterator rgs columnPathSpanEndTime (Some (IntBetweenPredicate start MaxInt64))
                  columnPathSpanEndTime,
                ColumnIterator rgs columnPathSpanID None columnPathSpanID])
            optional
            (Some (SpanCollector \<lparr>spanCollector.minAttributes = n, durationFilters = durs\<rparr>))"
    by (auto simp: makeIterFunc_def)
  let ?required = "required0 @
               [ColumnIterator rgs columnPathSpanStartTime (Some (IntBetweenPredicate 0 end'))
                  columnPathSpanStartTime,
                ColumnIterator rgs columnPathSpanEndTime (Some (IntBetweenPredicate start MaxInt64))
                  columnPathSpanEndTime,
                ColumnIterator rgs columnPathSpanID None columnPathSpanID]"
  let ?c = "\<lparr>spanCollector.minAttributes = n, durationFilters = durs\<rparr>"
  have s: "ColumnIterator rgs columnPathSpanStartTime (Some (IntBetweenPredicate 0 end'))
       columnPathSpanStartTime \<in> set ?required"
    by simp
  have e: "ColumnIterator rgs columnPathSpanEndTime (Some (IntBetweenPredicate start MaxInt64))
       columnPathSpanEndTime \<in> set ?required"
    by simp
  have w: "\<forall>res sp.
        requiredKept ?required res \<and>
        spanCollector_KeepGroup ?c res =
          Inr (Some \<lparr>Entries = [], OtherEntries = [(''span'', SpanValue sp)]\<rparr>) \<longrightarrow>
        Span.StartTimeUnixNanos sp \<le> end' \<and> start \<le> EndtimeUnixNanos sp"
  proof (intro allI impI)
    fix res sp
    assume a: "requiredKept ?required res \<and>
        spanCollector_KeepGroup ?c res =
          Inr (Some \<lparr>Entries = [], OtherEntries = [(''span'', SpanValue sp)]\<rparr>)"
    from requiredKept_D [OF conjunct1 [OF a] s]
    have s1: "\<forall>v. (columnPathSpanStartTime, v) \<in> set (Entries res) \<longrightarrow>
                0 \<le>s u64 v \<and> u64 v \<le>s end'"
      by blast
    from requiredKept_D [OF conjunct1 [OF a] e]
    have e1: "\<exists>v. (columnPathSpanEndTime, v) \<in> set (Entries res)"
      and e2: "\<forall>v. (columnPathSpanEndTime, v) \<in> set (Entries res) \<longrightarrow> start \<le>s u64 v"
      by blast+
    have s2: "\<forall>v. (columnPathSpanStartTime, v) \<in> set (Entries res) \<longrightarrow> Value_Uint64 v \<le> end'"
      using s1 sle_unsigned by (auto simp: Value_Uint64_def word_sle_eq)
    have e3: "\<forall>v. (columnPathSpanEndTime, v) \<in> set (Entries res) \<longrightarrow> start \<le> Value_Uint64 v"
      using e2 sle_unsigned [OF le_MaxInt64_nonneg [OF assms(4)]] by (auto simp: Value_Uint64_def)
    from spanCollector_KeepGroup_Some [OF conjunct2 [OF a]] obtain a0 where
      sp: "sp = spanDuration (durationFilters ?c)
            (fold spanEntry (Entries res)
               \<lparr>ID = [], Span.StartTimeUnixNanos = 0, EndtimeUnixNanos = 0, Attributes = a0\<rparr>)"
      by auto
    have "Span.StartTimeUnixNanos sp \<le> end'"
      unfolding sp spanDuration_times
      by (rule fold_spanEntry_Start [where Q = "\<lambda>x. x \<le> end'"]) (simp_all add: s2)
    moreover have "start \<le> EndtimeUnixNanos sp"
      unfolding sp spanDuration_times
      by (rule fold_spanEntry_End [where Q = "\<lambda>x. start \<le> x"]) (simp_all add: e1 e3)
    ultimately show "Span.StartTimeUnixNanos sp \<le> end' \<and> start \<le> EndtimeUnixNanos sp"
      by simp
  qed
  from it s e w show ?thesis by blast
qed

lemma createSpanIterator_time_window_example:
  "createSpanIterator (makeIterFunc [0::nat]) (\<lambda>s. None) [] 3 100 False False
   = Inr (LeftJoinIterator DefinitionLevelResourceSpansILSSpan
       [ColumnIterator [0] columnPathSpanStartTime (Some (IntBetweenPredicate 0 100))
          columnPathSpanStartTime,
        ColumnIterator [0] columnPathSpanEndTime (Some (IntBetweenPredicate 3 MaxInt64))
          columnPathSpanEndTime,
        ColumnIterator [0] columnPathSpanID None columnPathSpanID]
       []
       (Some (SpanCollector \<lparr>spanCollector.minAttributes = 0, durationFilters = []\<rparr>)))
   \<and> spanCollector_KeepGroup \<lparr>spanCollector.minAttributes = 0, durationFilters = []\<rparr>
       \<lparr>Entries = [(columnPathSpanStartTime, \<lparr>kind = Int64, u64 = 5, byteArray = []\<rparr>),
                   (columnPathSpanEndTime, \<lparr>kind = Int64, u64 = 10, byteArray = []\<rparr>),
                   (columnPathSpanID, \<lparr>kind = ByteArray, u64 = 0, byteArray = ''id''\<rparr>)],
        OtherEntries = []\<rparr>
     = Inr (Some \<lparr>Entries = [],
          OtherEntries = [(''span'', SpanValue \<lparr>ID = ''id'', Span.StartTimeUnixNanos = 5,
             EndtimeUnixNanos = 10, Attributes = []\<rparr>)]\<rparr>)
   \<and> (5::uint64) \<le> 100 \<and> (3::uint64) \<le> 10"
proof -
  let ?required = "[ColumnIterator [0::nat] columnPathSpanStartTime (Some (IntBetweenPredicate 0 100))
          columnPathSpanStartTime,
        ColumnIterator [0] columnPathSpanEndTime (Some (IntBetweenPredicate 3 MaxInt64))
          columnPathSpanEndTime,
        ColumnIterator [0] columnPathSpanID None columnPathSpanID]"
  let ?c = "\<lparr>spanCollector.minAttributes = 0, durationFilters = []\<rparr>"
  let ?it = "LeftJoinIterator DefinitionLevelResourceSpansILSSpan ?required []
       (Some (SpanCollector ?c))"
  let ?res = "\<lparr>Entries = [(columnPathSpanStartTime, \<lparr>kind = Int64, u64 = 5, byteArray = []\<rparr>),
                   (columnPathSpanEndTime, \<lparr>kind = Int64, u64 = 10, byteArray = []\<rparr>),
                   (columnPathSpanID, \<lparr>kind = ByteArray, u64 = 0, byteArray = ''id''\<rparr>)],
        OtherEntries = []\<rparr>"
  let ?span = "\<lparr>ID = ''id'', Span.StartTimeUnixNanos = 5, EndtimeUnixNanos = 10,
                 Attributes = []\<rparr>"
  have h: "createSpanIterator (makeIterFunc [0::nat]) (\<lambda>s. None) [] 3 100 False False = Inr ?it"
    by (simp add: createSpanIterator_def createSpanColumnIterators_def createAttributeIterator_def
        columnIterators_def makeIterFunc_def distinctNames_def)
  have b: "(0::uint64) < 3" "(0::uint64) < 100" "(3::uint64) \<le> MaxInt64"
    by (simp_all add: MaxInt64_def)
  have r: "requiredKept ?required ?res"
    by (simp add: requiredKept_def IntBetweenPredicate_KeepValue_def Value_Int64_def MaxInt64_def
        word_sle_eq columnPath_defs)
  have k: "spanCollector_KeepGroup ?c ?res
     = Inr (Some \<lparr>Entries = [], OtherEntries = [(''span'', SpanValue ?span)]\<rparr>)"
    by (simp add: spanCollector_KeepGroup_def spanEntry_def spanDuration_def columnPath_defs
        Value_Uint64_def Value_ByteArray_def)
  from createSpanIterator_time_window [OF h b] obtain required optional c where
    eq: "?it = LeftJoinIterator DefinitionLevelResourceSpansILSSpan required optional
            (Some (SpanCollector c))"
    and P: "\<forall>res sp.
        requiredKept required res \<and>
        spanCollector_KeepGroup c res =
          Inr (Some \<lparr>Entries = [], OtherEntries = [(''span'', SpanValue sp)]\<rparr>) \<longrightarrow>
        Span.StartTimeUnixNanos sp \<le> 100 \<and> 3 \<le> EndtimeUnixNanos sp"
    by blast
  from eq have c: "c = ?c" "required = ?required" by simp_all
  from P r k have "Span.StartTimeUnixNanos ?span \<le> 100 \<and> 3 \<le> EndtimeUnixNanos ?span"
    unfolding c by blast
  then have "(5::uint64) \<le> 100 \<and> (3::uint64) \<le> 10"
    by simp
  with h k show ?thesis by (intro conjI) simp_all
qed

text \<open>
  C5.  The claim is that, with both bounds of the request positive, every span returned
  by the fetch has \<open>spanStart \<le> req.end\<close> and \<open>spanEnd \<ge> req.start\<close>.  The bounds are
  \<open>uint64\<close>, and \<open>createSpanIterator\<close> converts them with \<open>int64(start)\<close> and
  \<open>int64(end)\<close> for range predicates that compare \<open>int64\<close> values.  For the request with
  \<open>start = 2^63\<close> and \<open>end = 100\<close>, \<open>int64(start)\<close> is \<open>MinInt64\<close>: the span that starts at 5
  and ends at 10 passes both required range predicates, the span collector builds it,
  the batch collector and the trace collector of the iterator tree that \<open>fetch\<close> returns
  pass it on, and it ends before the window starts.
\<close>

theorem fetch_time_window_wraps:
  "fetch (\<lambda>s. None)
     \<lparr>FetchSpansRequest.StartTimeUnixNanos = 9223372036854775808, EndTimeUnixNanos = 100,
      Conditions = [], AllConditions = False\<rparr>
     \<lparr>RowGroups = [0::nat]\<rparr> \<lparr>StartPage = 0, TotalPages = 0\<rparr>
   = Inr (JoinIterator DefinitionLevelTrace
       [LeftJoinIterator DefinitionLevelResourceSpans
          [LeftJoinIterator DefinitionLevelResourceSpansILSSpan
             [ColumnIterator [0] columnPathSpanStartTime (Some (IntBetweenPredicate 0 100))
                columnPathSpanStartTime,
              ColumnIterator [0] columnPathSpanEndTime
                (Some (IntBetweenPredicate 9223372036854775808 MaxInt64)) columnPathSpanEndTime,
              ColumnIterator [0] columnPathSpanID None columnPathSpanID]
             []
             (Some (SpanCollector \<lparr>spanCollector.minAttributes = 0, durationFilters = []\<rparr>))]
          []
          (Some (BatchCollector \<lparr>requireAtLeastOneMatchOverall = False,
                                  batchCollector.minAttributes = 0\<rparr>)),
        ColumnIterator [0] columnPathTraceID None columnPathTraceID,
        ColumnIterator [0] columnPathStartTimeUnixNano None columnPathStartTimeUnixNano,
        ColumnIterator [0] columnPathDurationNanos None columnPathDurationNanos,
        ColumnIterator [0] columnPathRootSpanName None columnPathRootSpanName,
        ColumnIterator [0] columnPathRootServiceName None columnPathRootServiceName]
       (Some TraceCollector))
   \<and> requiredKept
       [ColumnIterator [0::nat] columnPathSpanStartTime (Some (IntBetweenPredicate 0 100))
          columnPathSpanStartTime,
        ColumnIterator [0] columnPathSpanEndTime
          (Some (IntBetweenPredicate 9223372036854775808 MaxInt64)) columnPathSpanEndTime,
        ColumnIterator [0] columnPathSpanID None columnPathSpanID]
       \<lparr>Entries = [(columnPathSpanStartTime, \<lparr>kind = Int64, u64 = 5, byteArray = []\<rparr>),
                   (columnPathSpanEndTime, \<lparr>kind = Int64, u64 = 10, byteArray = []\<rparr>),
                   (columnPathSpanID, \<lparr>kind = ByteArray, u64 = 0, byteArray = ''id''\<rparr>)],
        OtherEntries = []\<rparr>
   \<and> spanCollector_KeepGroup \<lparr>spanCollector.minAttributes = 0, durationFilters = []\<rparr>
       \<lparr>Entries = [(columnPathSpanStartTime, \<lparr>kind = Int64, u64 = 5, byteArray = []\<rparr>),
                   (columnPathSpanEndTime, \<lparr>kind = Int64, u64 = 10, byteArray = []\<rparr>),
                   (columnPathSpanID, \<lparr>kind = ByteArray, u64 = 0, byteArray = ''id''\<rparr>)],
        OtherEntries = []\<rparr>
     = Inr (Some \<lparr>Entries = [],
          OtherEntries = [(''span'', SpanValue \<lparr>ID = ''id'', Span.StartTimeUnixNanos = 5,
             EndtimeUnixNanos = 10, Attributes = []\<rparr>)]\<rparr>)
   \<and> batchCollector_KeepGroup
       \<lparr>requireAtLeastOneMatchOverall = False, batchCollector.minAttributes = 0\<rparr>
       \<lparr>Entries = [],
        OtherEntries = [(''span'', SpanValue \<lparr>ID = ''id'', Span.StartTimeUnixNanos = 5,
             EndtimeUnixNanos = 10, Attributes = []\<rparr>)]\<rparr>
     = Some \<lparr>Entries = [],
          OtherEntries = [(''spanset'', SpansetValue
             \<lparr>TraceID = [], Spanset.StartTimeUnixNanos = 0, DurationNanos = 0,
              RootSpanName = [], RootServiceName = [],
              Spans = [\<lparr>ID = ''id'', Span.StartTimeUnixNanos = 5, EndtimeUnixNanos = 10,
                        Attributes = []\<rparr>]\<rparr>)]\<rparr>
   \<and> traceCollector_KeepGroup
       \<lparr>Entries = [],
        OtherEntries = [(''spanset'', SpansetValue
             \<lparr>TraceID = [], Spanset.StartTimeUnixNanos = 0, DurationNanos = 0,
              RootSpanName = [], RootServiceName = [],
              Spans = [\<lparr>ID = ''id'', Span.StartTimeUnixNanos = 5, EndtimeUnixNanos = 10,
                        Attributes = []\<rparr>]\<rparr>)]\<rparr>
     = Some \<lparr>Entries = [],
          OtherEntries = [(''spanset'', SpansetValue
             \<lparr>TraceID = [], Spanset.StartTimeUnixNanos = 0, DurationNanos = 0,
              RootSpanName = [], RootServiceName = [],
              Spans = [\<lparr>ID = ''id'', Span.StartTimeUnixNanos = 5, EndtimeUnixNanos = 10,
                        Attributes = []\<rparr>]\<rparr>)]\<rparr>
   \<and> (0::uint64) < 9223372036854775808 \<and> (0::uint64) < 100
   \<and> \<not> ((9223372036854775808::uint64) \<le> 10)"
proof (intro conjI)
  show "fetch (\<lambda>s. None)
     \<lparr>FetchSpansRequest.StartTimeUnixNanos = 9223372036854775808, EndTimeUnixNanos = 100,
      Conditions = [], AllConditions = False\<rparr>
     \<lparr>RowGroups = [0::nat]\<rparr> \<lparr>StartPage = 0, TotalPages = 0\<rparr>
   = Inr (JoinIterator DefinitionLevelTrace
       [LeftJoinIterator DefinitionLevelResourceSpans
          [LeftJoinIterator DefinitionLevelResourceSpansILSSpan
             [ColumnIterator [0] columnPathSpanStartTime (Some (IntBetweenPredicate 0 100))
                columnPathSpanStartTime,
              ColumnIterator [0] columnPathSpanEndTime
                (Some (IntBetweenPredicate 9223372036854775808 MaxInt64)) columnPathSpanEndTime,
              ColumnIterator [0] columnPathSpanID None columnPathSpanID]
             []
             (Some (SpanCollector \<lparr>spanCollector.minAttributes = 0, durationFilters = []\<rparr>))]
          []
          (Some (BatchCollector \<lparr>requireAtLeastOneMatchOverall = False,
                                  batchCollector.minAttributes = 0\<rparr>)),
        ColumnIterator [0] columnPathTraceID None columnPathTraceID,
        ColumnIterator [0] columnPathStartTimeUnixNano None columnPathStartTimeUnixNano,
        ColumnIterator [0] columnPathDurationNanos None columnPathDurationNanos,
        ColumnIterator [0] columnPathRootSpanName None columnPathRootSpanName,
        ColumnIterator [0] columnPathRootServiceName None columnPathRootServiceName]
       (Some TraceCollector))"
    by (simp add: fetch_def selectRowGroups_def createSpanIterator_def
        createSpanColumnIterators_def createAttributeIterator_def columnIterators_def
        createResourceIterator_def createResourceColumIterators_def createTraceIterator_def
        makeIterFunc_def distinctNames_def word_sless_alt)
qed (simp_all add: requiredKept_def IntBetweenPredicate_KeepValue_def Value_Int64_def
      MaxInt64_def word_sle_eq spanCollector_KeepGroup_def spanEntry_def spanDuration_def
      columnPath_defs Value_Uint64_def Value_ByteArray_def batchCollector_KeepGroup_def
      copyResAttrs_def removeUnmatched_def traceCollector_KeepGroup_def traceOtherEntry_def)

end
